theory Spec2Isabelle
  imports Main "HOL-Library.Signed_Division"
begin

section \<open>Data model (runtime.h, statement.h as used by runtime.cpp and statement.cpp)\<close>

text \<open>
  An instance lives inside the \<open>NewInstance\<close> node that embeds it (\<open>class_inst_\<close>);
  a holder made by \<open>ObjectHolder::Share\<close> is the address of that object. The model
  names each embedded instance by an address and keeps the mutable part (the field
  map) in a heap.
\<close>

type_synonym addr = nat

text \<open>The comparators of runtime.cpp that a \<open>Comparison\<close> node can carry in \<open>cmp_\<close>.\<close>

datatype comparator =
  CmpEqual | CmpNotEqual | CmpLess | CmpGreater | CmpLessOrEqual | CmpGreaterOrEqual

text \<open>
  The statement tree, the runtime objects, classes and methods refer to each other:
  a method owns its body, a \<open>ClassDefinition\<close> node owns a holder of a class.
  A \<open>unique_ptr<Statement>\<close> that the code tests against null is a \<open>stmt option\<close>;
  one that the code dereferences without a test is a \<open>stmt\<close>.
  An \<open>ObjectHolder\<close> is an \<open>object option\<close>, \<open>None\<close> being the empty holder.
  \<open>Number\<close> holds a C++ \<open>int\<close>: an integer between \<open>INT_MIN\<close> and \<open>INT_MAX\<close>;
  the operators below say what happens when a result leaves that range.
  \<open>ClassDefinition\<close> carries the identity of the node besides its holder \<open>cls_\<close>,
  because executing the node moves the holder out of it.
  \<open>FieldAssignment\<close> holds its \<open>VariableValue\<close> by value: the list is its \<open>dotted_ids_\<close>.
  The node \<open>Not\<close> is \<open>Not_stmt\<close> here.
\<close>

datatype stmt =
    Assignment string stmt
  | VariableValue "string list"
  | Print "stmt list"
  | MethodCall "stmt option" string "stmt list"
  | Stringify stmt
  | Add "stmt option" "stmt option"
  | Sub "stmt option" "stmt option"
  | Mult "stmt option" "stmt option"
  | Div "stmt option" "stmt option"
  | Compound "stmt list"
  | Return stmt
  | ClassDefinition nat "object option"
  | FieldAssignment "string list" string stmt
  | IfElse stmt stmt "stmt option"
  | Or "stmt option" "stmt option"
  | And "stmt option" "stmt option"
  | Not_stmt "stmt option"
  | Comparison comparator "stmt option" "stmt option"
  | NewInstance addr "stmt list"
  | MethodBody stmt
and object =
    Number int
  | String string
  | Bool bool
  | ClassObject class_obj
  | ClassInstance addr
and class_obj =
    Class (cls_name: string) (cls_methods: "method_obj list") (cls_parent: "class_obj option")
          (names_methods: "(string \<times> method_obj) list")
and method_obj =
    Method (name: string) (formal_params: "string list") (body: stmt)

type_synonym ObjectHolder = "object option"

type_synonym Closure = "string \<rightharpoonup> ObjectHolder"

section \<open>runtime.cpp\<close>

subsection \<open>Truthiness\<close>

fun IsTrue :: "ObjectHolder \<Rightarrow> bool" where
  "IsTrue None = False"
| "IsTrue (Some (Bool b)) = (b = True)"
| "IsTrue (Some (Number n)) = (\<not> (n = 0))"
| "IsTrue (Some (String v)) = (\<not> (v = []))"
| "IsTrue (Some (ClassObject c)) = False"
| "IsTrue (Some (ClassInstance a)) = False"

subsection \<open>Classes\<close>

text \<open>
  \<open>names_methods_[method.name] = &method\<close>: the entry of the name is replaced when
  there is one and added otherwise. The index is kept as an association list with
  one entry for each name.
\<close>

fun index_set :: "string \<Rightarrow> method_obj \<Rightarrow> (string \<times> method_obj) list \<Rightarrow> (string \<times> method_obj) list" where
  "index_set k m [] = [(k, m)]"
| "index_set k m ((k', m') # rest) =
     (if k' = k then (k, m) # rest else (k', m') # index_set k m rest)"

text \<open>One of the two \<open>for\<close> loops of the constructor, over a vector of methods.\<close>

fun index_methods :: "method_obj list \<Rightarrow> (string \<times> method_obj) list \<Rightarrow> (string \<times> method_obj) list" where
  "index_methods [] idx = idx"
| "index_methods (m # ms) idx = index_methods ms (index_set (name m) m idx)"

text \<open>
  \<open>Class::Class(name, methods, parent)\<close>: when there is a parent, the loop runs over
  \<open>parent_->methods_\<close>, the methods the parent declares itself; then over \<open>methods_\<close>.
\<close>

definition mk_Class :: "string \<Rightarrow> method_obj list \<Rightarrow> class_obj option \<Rightarrow> class_obj" where
  "mk_Class nm methods parent =
     Class nm methods parent
       (index_methods methods
          (case parent of
             None \<Rightarrow> []
           | Some p \<Rightarrow> index_methods (cls_methods p) []))"

definition GetMethod :: "class_obj \<Rightarrow> string \<Rightarrow> method_obj option" where
  "GetMethod c nm = map_of (names_methods c) nm"

text \<open>
  \<open>TryAs<T>()\<close>: the object when the holder holds a \<open>T\<close>, a null pointer
  (\<open>None\<close>) otherwise.
\<close>

fun TryAs_Number :: "ObjectHolder \<Rightarrow> int option" where
  "TryAs_Number (Some (Number v)) = Some v"
| "TryAs_Number _ = None"

fun TryAs_String :: "ObjectHolder \<Rightarrow> string option" where
  "TryAs_String (Some (String v)) = Some v"
| "TryAs_String _ = None"

fun TryAs_Bool :: "ObjectHolder \<Rightarrow> bool option" where
  "TryAs_Bool (Some (Bool v)) = Some v"
| "TryAs_Bool _ = None"

fun TryAs_Class :: "ObjectHolder \<Rightarrow> class_obj option" where
  "TryAs_Class (Some (ClassObject c)) = Some c"
| "TryAs_Class _ = None"

fun TryAs_ClassInstance :: "ObjectHolder \<Rightarrow> addr option" where
  "TryAs_ClassInstance (Some (ClassInstance a)) = Some a"
| "TryAs_ClassInstance _ = None"

subsection \<open>Instances, the heap and the context\<close>

text \<open>A \<open>ClassInstance\<close>: the class it refers to (\<open>cls_\<close>) and its fields (\<open>fields_\<close>).\<close>

record instance_obj =
  cls :: class_obj
  Fields :: Closure

text \<open>
  What statements change besides the closure they are given: the instances, the
  output stream of the \<open>Context\<close>, and the \<open>ClassDefinition\<close> nodes whose holder
  has been moved out.
\<close>

record state =
  heap :: "addr \<rightharpoonup> instance_obj"
  out :: string
  moved :: "nat set"

text \<open>
  How a call of \<open>Execute\<close> ends: it returns a holder; it throws a holder (what
  \<open>Return\<close> does); it throws \<open>std::runtime_error\<close>; the behaviour is undefined
  (a null pointer is dereferenced, an \<open>assert\<close> fails, a signed operation
  overflows, an address is not in the heap); or the fuel of the model ran out, which
  stands for a run that does not end.
\<close>

datatype outcome =
    Normal ObjectHolder
  | ThrowHolder ObjectHolder
  | runtime_error string
  | Undefined
  | OutOfFuel

type_synonym executor = "stmt \<Rightarrow> Closure \<Rightarrow> state \<Rightarrow> outcome \<times> Closure \<times> state"

definition HasMethod :: "instance_obj \<Rightarrow> string \<Rightarrow> nat \<Rightarrow> bool" where
  "HasMethod inst method_name argument_count =
     (case GetMethod (cls inst) method_name of
        None \<Rightarrow> False
      | Some m \<Rightarrow> length (formal_params m) = argument_count)"

text \<open>
  The loop of \<open>ClassInstance::Call\<close> that binds the formal parameters; \<open>HasMethod\<close>
  has made sure that there are as many arguments as parameters.
\<close>

fun bind_params :: "string list \<Rightarrow> ObjectHolder list \<Rightarrow> Closure \<Rightarrow> Closure" where
  "bind_params (p # ps) (a # as) closure = bind_params ps as (closure(p \<mapsto> a))"
| "bind_params _ _ closure = closure"

text \<open>
  \<open>ClassInstance::Call\<close> on the instance at address \<open>this\<close>. The executor runs
  the body; the closure of the call is local and is dropped.
\<close>

definition Call :: "executor \<Rightarrow> addr \<Rightarrow> string \<Rightarrow> ObjectHolder list \<Rightarrow> state \<Rightarrow> outcome \<times> state" where
  "Call ex this method_name actual_args s =
     (case heap s this of
        None \<Rightarrow> (Undefined, s)
      | Some inst \<Rightarrow>
          if \<not> HasMethod inst method_name (length actual_args) then
            (runtime_error ''Not implemented'', s)
          else
            (case GetMethod (cls inst) method_name of
               None \<Rightarrow> (Undefined, s)
             | Some method_ptr \<Rightarrow>
                 (let closure = bind_params (formal_params method_ptr) actual_args
                                  [''self'' \<mapsto> Some (ClassInstance this)];
                      (r, closure', s') = ex (body method_ptr) closure s
                  in (r, s'))))"

subsection \<open>Comparison\<close>

text \<open>\<open>operator<\<close> of \<open>std::string\<close>: lexicographic on the bytes.\<close>

fun string_less :: "string \<Rightarrow> string \<Rightarrow> bool" where
  "string_less [] [] = False"
| "string_less [] (y # ys) = True"
| "string_less (x # xs) [] = False"
| "string_less (x # xs) (y # ys) =
     (if (of_char x :: int) < of_char y then True
      else if (of_char y :: int) < of_char x then False
      else string_less xs ys)"

text \<open>
  \<open>Equal\<close> and \<open>Less\<close>: the value, or how the comparison ended otherwise. The
  result of \<open>__eq__\<close> and \<open>__lt__\<close> is read through \<open>TryAs<Bool>()\<close> without a test.
\<close>

definition Equal :: "executor \<Rightarrow> ObjectHolder \<Rightarrow> ObjectHolder \<Rightarrow> state \<Rightarrow> (outcome + bool) \<times> state" where
  "Equal ex lhs rhs s =
     (case (TryAs_Number lhs, TryAs_Number rhs) of
        (Some a, Some b) \<Rightarrow> (Inr (a = b), s)
      | _ \<Rightarrow>
     (case (TryAs_String lhs, TryAs_String rhs) of
        (Some a, Some b) \<Rightarrow> (Inr (a = b), s)
      | _ \<Rightarrow>
     (case (TryAs_Bool lhs, TryAs_Bool rhs) of
        (Some a, Some b) \<Rightarrow> (Inr (a = b), s)
      | _ \<Rightarrow>
     if lhs = None \<and> rhs = None then (Inr True, s)
     else
     (case TryAs_ClassInstance lhs of
        None \<Rightarrow> (Inl (runtime_error ''Cannot compare objects for equality''), s)
      | Some a \<Rightarrow>
          (case heap s a of
             None \<Rightarrow> (Inl Undefined, s)
           | Some inst \<Rightarrow>
               if HasMethod inst ''__eq__'' 1 then
                 (case Call ex a ''__eq__'' [rhs] s of
                    (Normal res, s') \<Rightarrow>
                      (case TryAs_Bool res of
                         None \<Rightarrow> (Inl Undefined, s')
                       | Some b \<Rightarrow> (Inr b, s'))
                  | (r, s') \<Rightarrow> (Inl r, s'))
               else (Inl (runtime_error ''Cannot compare objects for equality''), s))))))"

definition Less :: "executor \<Rightarrow> ObjectHolder \<Rightarrow> ObjectHolder \<Rightarrow> state \<Rightarrow> (outcome + bool) \<times> state" where
  "Less ex lhs rhs s =
     (case (TryAs_Number lhs, TryAs_Number rhs) of
        (Some a, Some b) \<Rightarrow> (Inr (a < b), s)
      | _ \<Rightarrow>
     (case (TryAs_String lhs, TryAs_String rhs) of
        (Some a, Some b) \<Rightarrow> (Inr (string_less a b), s)
      | _ \<Rightarrow>
     (case (TryAs_Bool lhs, TryAs_Bool rhs) of
        (Some a, Some b) \<Rightarrow> (Inr (\<not> a \<and> b), s)
      | _ \<Rightarrow>
     (case TryAs_ClassInstance lhs of
        None \<Rightarrow> (Inl (runtime_error ''Cannot compare objects for less''), s)
      | Some a \<Rightarrow>
          (case heap s a of
             None \<Rightarrow> (Inl Undefined, s)
           | Some inst \<Rightarrow>
               if HasMethod inst ''__lt__'' 1 then
                 (case Call ex a ''__lt__'' [rhs] s of
                    (Normal res, s') \<Rightarrow>
                      (case TryAs_Bool res of
                         None \<Rightarrow> (Inl Undefined, s')
                       | Some b \<Rightarrow> (Inr b, s'))
                  | (r, s') \<Rightarrow> (Inl r, s'))
               else (Inl (runtime_error ''Cannot compare objects for less''), s))))))"

definition negate :: "(outcome + bool) \<times> state \<Rightarrow> (outcome + bool) \<times> state" where
  "negate r = (case r of (Inr b, s) \<Rightarrow> (Inr (\<not> b), s) | (Inl e, s) \<Rightarrow> (Inl e, s))"

definition NotEqual :: "executor \<Rightarrow> ObjectHolder \<Rightarrow> ObjectHolder \<Rightarrow> state \<Rightarrow> (outcome + bool) \<times> state" where
  "NotEqual ex lhs rhs s = negate (Equal ex lhs rhs s)"

text \<open>\<open>!Less(lhs, rhs, context) && !Equal(lhs, rhs, context)\<close>: \<open>Equal\<close> runs only when \<open>Less\<close> gave false.\<close>

definition Greater :: "executor \<Rightarrow> ObjectHolder \<Rightarrow> ObjectHolder \<Rightarrow> state \<Rightarrow> (outcome + bool) \<times> state" where
  "Greater ex lhs rhs s =
     (case Less ex lhs rhs s of
        (Inl e, s1) \<Rightarrow> (Inl e, s1)
      | (Inr True, s1) \<Rightarrow> (Inr False, s1)
      | (Inr False, s1) \<Rightarrow> negate (Equal ex lhs rhs s1))"

definition LessOrEqual :: "executor \<Rightarrow> ObjectHolder \<Rightarrow> ObjectHolder \<Rightarrow> state \<Rightarrow> (outcome + bool) \<times> state" where
  "LessOrEqual ex lhs rhs s = negate (Greater ex lhs rhs s)"

definition GreaterOrEqual :: "executor \<Rightarrow> ObjectHolder \<Rightarrow> ObjectHolder \<Rightarrow> state \<Rightarrow> (outcome + bool) \<times> state" where
  "GreaterOrEqual ex lhs rhs s = negate (Less ex lhs rhs s)"

fun compare :: "comparator \<Rightarrow> executor \<Rightarrow> ObjectHolder \<Rightarrow> ObjectHolder \<Rightarrow> state \<Rightarrow> (outcome + bool) \<times> state" where
  "compare CmpEqual = Equal"
| "compare CmpNotEqual = NotEqual"
| "compare CmpLess = Less"
| "compare CmpGreater = Greater"
| "compare CmpLessOrEqual = LessOrEqual"
| "compare CmpGreaterOrEqual = GreaterOrEqual"

subsection \<open>Printing\<close>

text \<open>
  Modelled from the spec: \<open>Print\<close> of \<open>Number\<close> and \<open>String\<close> is declared in
  runtime.h, which is not among the sources; a number is written in decimal and a
  string as it is.
\<close>

fun show_nat :: "nat \<Rightarrow> string" where
  "show_nat n =
     (if n < 10 then [char_of (48 + n)]
      else show_nat (n div 10) @ [char_of (48 + n mod 10)])"

definition show_int :: "int \<Rightarrow> string" where
  "show_int i = (if i < 0 then CHR ''-'' # show_nat (nat (- i)) else show_nat (nat i))"

text \<open>
  \<open>os << this\<close> writes the address of the instance, in a form that the
  implementation defines; the model writes the number of the address.
\<close>

definition show_pointer :: "addr \<Rightarrow> string" where
  "show_pointer a = ''0x'' @ show_nat a"

definition os_write :: "string \<Rightarrow> state \<Rightarrow> state" where
  "os_write text_out s = s\<lparr>out := out s @ text_out\<rparr>"

section \<open>statement.cpp\<close>

subsection \<open>VariableValue\<close>

text \<open>
  The \<open>for\<close> loop of \<open>VariableValue::Execute\<close>: \<open>current_closure\<close> is what
  \<open>current_closure_ptr\<close> points to. It moves to the fields of the value found
  when that value is an instance, and stays where it is otherwise.
\<close>

fun VariableValue_loop :: "(addr \<rightharpoonup> instance_obj) \<Rightarrow> Closure \<Rightarrow> ObjectHolder \<Rightarrow> string list \<Rightarrow> outcome" where
  "VariableValue_loop h current_closure result [] = Normal result"
| "VariableValue_loop h current_closure result (var_name # rest) =
     (case current_closure var_name of
        None \<Rightarrow> runtime_error ''Invalid argument name''
      | Some found \<Rightarrow>
          (case TryAs_ClassInstance found of
             None \<Rightarrow> VariableValue_loop h current_closure found rest
           | Some a \<Rightarrow>
               (case h a of
                  None \<Rightarrow> Undefined
                | Some next_dotted_var \<Rightarrow>
                    VariableValue_loop h (Fields next_dotted_var) found rest)))"

definition VariableValue_Execute :: "string list \<Rightarrow> Closure \<Rightarrow> state \<Rightarrow> outcome" where
  "VariableValue_Execute dotted_ids closure s =
     (if length dotted_ids > 0 then VariableValue_loop (heap s) closure None dotted_ids
      else runtime_error ''No arguments specified'')"

subsection \<open>Loops over sub-statements\<close>

text \<open>
  The loops of \<open>MethodCall::Execute\<close> and \<open>NewInstance::Execute\<close> that fill
  \<open>args_values\<close>, left to right; an argument that does not return ends the loop.
\<close>

fun exec_args :: "executor \<Rightarrow> stmt list \<Rightarrow> ObjectHolder list \<Rightarrow> Closure \<Rightarrow> state
    \<Rightarrow> (outcome + ObjectHolder list) \<times> Closure \<times> state" where
  "exec_args ex [] args_values c s = (Inr args_values, c, s)"
| "exec_args ex (arg # rest) args_values c s =
     (case ex arg c s of
        (Normal v, c1, s1) \<Rightarrow> exec_args ex rest (args_values @ [v]) c1 s1
      | (r, c1, s1) \<Rightarrow> (Inl r, c1, s1))"

text \<open>The loop of \<open>Compound::Execute\<close>; the values of the statements are dropped.\<close>

fun Compound_loop :: "executor \<Rightarrow> stmt list \<Rightarrow> Closure \<Rightarrow> state \<Rightarrow> outcome \<times> Closure \<times> state" where
  "Compound_loop ex [] c s = (Normal None, c, s)"
| "Compound_loop ex (statement # rest) c s =
     (case ex statement c s of
        (Normal v, c1, s1) \<Rightarrow> Compound_loop ex rest c1 s1
      | r \<Rightarrow> r)"

text \<open>
  The loop of \<open>Print::Execute\<close> with what follows it. \<open>first\<close> says that the
  argument is \<open>args_.front()\<close>; \<open>pr\<close> is \<open>Object::Print\<close> into the output stream
  of the context.
\<close>

fun Print_loop :: "executor \<Rightarrow> (object \<Rightarrow> state \<Rightarrow> outcome \<times> state) \<Rightarrow> bool \<Rightarrow> ObjectHolder
    \<Rightarrow> stmt list \<Rightarrow> Closure \<Rightarrow> state \<Rightarrow> outcome \<times> Closure \<times> state" where
  "Print_loop ex pr first result [] c s = (Normal result, c, os_write [CHR 0x0A] s)"
| "Print_loop ex pr first result (arg # rest) c s =
     (case ex arg c (if first then s else os_write '' '' s) of
        (Normal v, c1, s1) \<Rightarrow>
          (case v of
             None \<Rightarrow> Print_loop ex pr False v rest c1 (os_write ''None'' s1)
           | Some obj \<Rightarrow>
               (case pr obj s1 of
                  (Normal u, s2) \<Rightarrow> Print_loop ex pr False v rest c1 s2
                | (r, s2) \<Rightarrow> (r, c1, s2)))
      | r \<Rightarrow> r)"

text \<open>\<open>lhs_->Execute\<close>, then \<open>rhs_->Execute\<close>, of a binary operation.\<close>

definition exec_operands :: "executor \<Rightarrow> stmt \<Rightarrow> stmt \<Rightarrow> Closure \<Rightarrow> state
    \<Rightarrow> (outcome + ObjectHolder \<times> ObjectHolder) \<times> Closure \<times> state" where
  "exec_operands ex lhs rhs c s =
     (case ex lhs c s of
        (Normal lhs_res, c1, s1) \<Rightarrow>
          (case ex rhs c1 s1 of
             (Normal rhs_res, c2, s2) \<Rightarrow> (Inr (lhs_res, rhs_res), c2, s2)
           | (r, c2, s2) \<Rightarrow> (Inl r, c2, s2))
      | (r, c1, s1) \<Rightarrow> (Inl r, c1, s1))"

text \<open>
  A \<open>Number\<close> made from the result of an operation on two \<open>int\<close>: the behaviour
  is undefined when the result is not an \<open>int\<close>.
\<close>

definition Own_Number :: "int \<Rightarrow> outcome" where
  "Own_Number v =
     (if - 2147483648 \<le> v \<and> v \<le> 2147483647 then Normal (Some (Number v)) else Undefined)"

subsection \<open>Execute\<close>

text \<open>
  \<open>Execute\<close> of every statement, with \<open>Object::Print\<close>, which runs \<open>__str__\<close>.
  Each nested call of \<open>Execute\<close> or \<open>Print\<close> takes one unit of fuel.
  The operands of \<open>=\<close> are evaluated right to left, as C++17 has it:
  \<open>rv_->Execute\<close> comes before \<open>closure[var_]\<close> and before \<open>obj_ptr->Fields()\<close>.
\<close>

fun Execute :: "nat \<Rightarrow> stmt \<Rightarrow> Closure \<Rightarrow> state \<Rightarrow> outcome \<times> Closure \<times> state"
and PrintObject :: "nat \<Rightarrow> object \<Rightarrow> state \<Rightarrow> outcome \<times> state" where
  "Execute 0 st c s = (OutOfFuel, c, s)"
| "Execute (Suc n) (Assignment var rv) c s =
     (case Execute n rv c s of
        (Normal v, c1, s1) \<Rightarrow> (Normal v, c1(var \<mapsto> v), s1)
      | r \<Rightarrow> r)"
| "Execute (Suc n) (VariableValue dotted_ids) c s = (VariableValue_Execute dotted_ids c s, c, s)"
| "Execute (Suc n) (Print args) c s = Print_loop (Execute n) (PrintObject n) True None args c s"
| "Execute (Suc n) (MethodCall object method_name args) c s =
     (case object of
        None \<Rightarrow> (Normal None, c, s)
      | Some object_stmt \<Rightarrow>
          (case Execute n object_stmt c s of
             (Normal obj, c1, s1) \<Rightarrow>
               (case exec_args (Execute n) args [] c1 s1 of
                  (Inl r, c2, s2) \<Rightarrow> (r, c2, s2)
                | (Inr args_values, c2, s2) \<Rightarrow>
                    (case TryAs_ClassInstance obj of
                       None \<Rightarrow> (Undefined, c2, s2)
                     | Some obj_ptr \<Rightarrow>
                         (case Call (Execute n) obj_ptr method_name args_values s2 of
                            (r, s3) \<Rightarrow> (r, c2, s3))))
           | r \<Rightarrow> r))"
| "Execute (Suc n) (Stringify argument) c s =
     (case Execute n argument c s of
        (Normal obj, c1, s1) \<Rightarrow>
          (case obj of
             None \<Rightarrow> (Normal (Some (String ''None'')), c1, s1)
           | Some ob \<Rightarrow>
               (case PrintObject n ob (s1\<lparr>out := []\<rparr>) of
                  (Normal u, s2) \<Rightarrow> (Normal (Some (String (out s2))), c1, s2\<lparr>out := out s1\<rparr>)
                | (r, s2) \<Rightarrow> (r, c1, s2\<lparr>out := out s1\<rparr>)))
      | r \<Rightarrow> r)"
| "Execute (Suc n) (Add lhs rhs) c s =
     (case (lhs, rhs) of
        (Some lhs_stmt, Some rhs_stmt) \<Rightarrow>
          (case exec_operands (Execute n) lhs_stmt rhs_stmt c s of
             (Inl r, c2, s2) \<Rightarrow> (r, c2, s2)
           | (Inr (lhs_res, rhs_res), c2, s2) \<Rightarrow>
               (case (TryAs_Number lhs_res, TryAs_Number rhs_res) of
                  (Some a, Some b) \<Rightarrow> (Own_Number (a + b), c2, s2)
                | _ \<Rightarrow>
               (case (TryAs_String lhs_res, TryAs_String rhs_res) of
                  (Some a, Some b) \<Rightarrow> (Normal (Some (String (a @ b))), c2, s2)
                | _ \<Rightarrow>
               (case TryAs_ClassInstance lhs_res of
                  None \<Rightarrow> (runtime_error ''Wrong types for add operation'', c2, s2)
                | Some lhs_class_inst \<Rightarrow>
                    (case heap s2 lhs_class_inst of
                       None \<Rightarrow> (Undefined, c2, s2)
                     | Some inst \<Rightarrow>
                         if HasMethod inst ''__add__'' 1 then
                           (case Call (Execute n) lhs_class_inst ''__add__'' [rhs_res] s2 of
                              (r, s3) \<Rightarrow> (r, c2, s3))
                         else (runtime_error ''Wrong types for add operation'', c2, s2))))))
      | _ \<Rightarrow> (runtime_error ''null operands are not supported'', c, s))"
| "Execute (Suc n) (Sub lhs rhs) c s =
     (case (lhs, rhs) of
        (Some lhs_stmt, Some rhs_stmt) \<Rightarrow>
          (case exec_operands (Execute n) lhs_stmt rhs_stmt c s of
             (Inl r, c2, s2) \<Rightarrow> (r, c2, s2)
           | (Inr (lhs_res, rhs_res), c2, s2) \<Rightarrow>
               (case (TryAs_Number lhs_res, TryAs_Number rhs_res) of
                  (Some a, Some b) \<Rightarrow> (Own_Number (a - b), c2, s2)
                | _ \<Rightarrow> (runtime_error ''Wrong types for sub operation'', c2, s2)))
      | _ \<Rightarrow> (runtime_error ''null operands are not supported'', c, s))"
| "Execute (Suc n) (Mult lhs rhs) c s =
     (case (lhs, rhs) of
        (Some lhs_stmt, Some rhs_stmt) \<Rightarrow>
          (case exec_operands (Execute n) lhs_stmt rhs_stmt c s of
             (Inl r, c2, s2) \<Rightarrow> (r, c2, s2)
           | (Inr (lhs_res, rhs_res), c2, s2) \<Rightarrow>
               (case (TryAs_Number lhs_res, TryAs_Number rhs_res) of
                  (Some a, Some b) \<Rightarrow> (Own_Number (a * b), c2, s2)
                | _ \<Rightarrow> (runtime_error ''Wrong types for mult operation'', c2, s2)))
      | _ \<Rightarrow> (runtime_error ''null operands are not supported'', c, s))"
| "Execute (Suc n) (Div lhs rhs) c s =
     (case (lhs, rhs) of
        (Some lhs_stmt, Some rhs_stmt) \<Rightarrow>
          (case exec_operands (Execute n) lhs_stmt rhs_stmt c s of
             (Inl r, c2, s2) \<Rightarrow> (r, c2, s2)
           | (Inr (lhs_res, rhs_res), c2, s2) \<Rightarrow>
               (case (TryAs_Number lhs_res, TryAs_Number rhs_res) of
                  (Some a, Some b) \<Rightarrow>
                    if b = 0 then (runtime_error ''Division by zero'', c2, s2)
                    else (Own_Number (a sdiv b), c2, s2)
                | _ \<Rightarrow> (runtime_error ''Wrong types for div operation'', c2, s2)))
      | _ \<Rightarrow> (runtime_error ''null operands are not supported'', c, s))"
| "Execute (Suc n) (Compound stmts) c s = Compound_loop (Execute n) stmts c s"
| "Execute (Suc n) (Return statement) c s =
     (case Execute n statement c s of
        (Normal v, c1, s1) \<Rightarrow> (ThrowHolder v, c1, s1)
      | r \<Rightarrow> r)"
| "Execute (Suc n) (ClassDefinition node cls_holder) c s =
     (let cls_now = (if node \<in> moved s then None else cls_holder)
      in case TryAs_Class cls_now of
           None \<Rightarrow> (Undefined, c, s)
         | Some obj \<Rightarrow> (Normal None, c(cls_name obj \<mapsto> cls_now), s\<lparr>moved := insert node (moved s)\<rparr>))"
| "Execute (Suc n) (FieldAssignment object field_name rv) c s =
     (case VariableValue_Execute object c s of
        Normal obj \<Rightarrow>
          (case Execute n rv c s of
             (Normal v, c1, s1) \<Rightarrow>
               (case TryAs_ClassInstance obj of
                  None \<Rightarrow> (Undefined, c1, s1)
                | Some obj_ptr \<Rightarrow>
                    (case heap s1 obj_ptr of
                       None \<Rightarrow> (Undefined, c1, s1)
                     | Some inst \<Rightarrow>
                         (Normal v, c1,
                          s1\<lparr>heap := (heap s1)(obj_ptr \<mapsto>
                                 inst\<lparr>Fields := (Fields inst)(field_name \<mapsto> v)\<rparr>)\<rparr>)))
           | r \<Rightarrow> r)
      | r \<Rightarrow> (r, c, s))"
| "Execute (Suc n) (IfElse condition if_body else_body) c s =
     (case Execute n condition c s of
        (Normal condition_result, c1, s1) \<Rightarrow>
          if IsTrue condition_result then Execute n if_body c1 s1
          else (case else_body of
                  Some else_stmt \<Rightarrow> Execute n else_stmt c1 s1
                | None \<Rightarrow> (Normal None, c1, s1))
      | r \<Rightarrow> r)"
| "Execute (Suc n) (Or lhs rhs) c s =
     (case (lhs, rhs) of
        (Some lhs_stmt, Some rhs_stmt) \<Rightarrow>
          (case exec_operands (Execute n) lhs_stmt rhs_stmt c s of
             (Inl r, c2, s2) \<Rightarrow> (r, c2, s2)
           | (Inr (lhs_res, rhs_res), c2, s2) \<Rightarrow>
               if IsTrue lhs_res then (Normal (Some (Bool True)), c2, s2)
               else if IsTrue rhs_res then (Normal (Some (Bool True)), c2, s2)
               else (Normal (Some (Bool False)), c2, s2))
      | _ \<Rightarrow> (runtime_error ''null operands are not supported'', c, s))"
| "Execute (Suc n) (And lhs rhs) c s =
     (case (lhs, rhs) of
        (Some lhs_stmt, Some rhs_stmt) \<Rightarrow>
          (case exec_operands (Execute n) lhs_stmt rhs_stmt c s of
             (Inl r, c2, s2) \<Rightarrow> (r, c2, s2)
           | (Inr (lhs_res, rhs_res), c2, s2) \<Rightarrow>
               if IsTrue lhs_res \<and> IsTrue rhs_res then (Normal (Some (Bool True)), c2, s2)
               else (Normal (Some (Bool False)), c2, s2))
      | _ \<Rightarrow> (runtime_error ''null operands are not supported'', c, s))"
| "Execute (Suc n) (Not_stmt argument) c s =
     (case argument of
        None \<Rightarrow> (runtime_error ''null operands are not supported'', c, s)
      | Some argument_stmt \<Rightarrow>
          (case Execute n argument_stmt c s of
             (Normal obj, c1, s1) \<Rightarrow> (Normal (Some (Bool (\<not> IsTrue obj))), c1, s1)
           | r \<Rightarrow> r))"
| "Execute (Suc n) (Comparison cmp lhs rhs) c s =
     (case (lhs, rhs) of
        (Some lhs_stmt, Some rhs_stmt) \<Rightarrow>
          (case exec_operands (Execute n) lhs_stmt rhs_stmt c s of
             (Inl r, c2, s2) \<Rightarrow> (r, c2, s2)
           | (Inr (lhs_res, rhs_res), c2, s2) \<Rightarrow>
               (case compare cmp (Execute n) lhs_res rhs_res s2 of
                  (Inl r, s3) \<Rightarrow> (r, c2, s3)
                | (Inr res, s3) \<Rightarrow> (Normal (Some (Bool res)), c2, s3)))
      | _ \<Rightarrow> (runtime_error ''null operands are not supported'', c, s))"
| "Execute (Suc n) (NewInstance class_inst args) c s =
     (case exec_args (Execute n) args [] c s of
        (Inl r, c1, s1) \<Rightarrow> (r, c1, s1)
      | (Inr args_values, c1, s1) \<Rightarrow>
          (case heap s1 class_inst of
             None \<Rightarrow> (Undefined, c1, s1)
           | Some inst \<Rightarrow>
               if HasMethod inst ''__init__'' (length args) then
                 (case Call (Execute n) class_inst ''__init__'' args_values s1 of
                    (Normal u, s2) \<Rightarrow> (Normal (Some (ClassInstance class_inst)), c1, s2)
                  | (r, s2) \<Rightarrow> (r, c1, s2))
               else (Normal (Some (ClassInstance class_inst)), c1, s1)))"
| "Execute (Suc n) (MethodBody body_stmt) c s =
     (case Execute n body_stmt c s of
        (Normal v, c1, s1) \<Rightarrow> (Normal None, c1, s1)
      | (ThrowHolder result, c1, s1) \<Rightarrow> (Normal result, c1, s1)
      | r \<Rightarrow> r)"
| "PrintObject 0 ob s = (OutOfFuel, s)"
| "PrintObject (Suc n) (Number v) s = (Normal None, os_write (show_int v) s)"
| "PrintObject (Suc n) (String v) s = (Normal None, os_write v s)"
| "PrintObject (Suc n) (Bool v) s = (Normal None, os_write (if v then ''True'' else ''False'') s)"
| "PrintObject (Suc n) (ClassObject cl) s = (Normal None, os_write (''Class '' @ cls_name cl) s)"
| "PrintObject (Suc n) (ClassInstance this) s =
     (case heap s this of
        None \<Rightarrow> (Undefined, s)
      | Some inst \<Rightarrow>
          if HasMethod inst ''__str__'' 0 then
            (case Call (Execute n) this ''__str__'' [] s of
               (Normal res, s1) \<Rightarrow>
                 (case res of
                    None \<Rightarrow> (Undefined, s1)
                  | Some ob \<Rightarrow> PrintObject n ob s1)
             | r \<Rightarrow> r)
          else (Normal None, os_write (show_pointer this) s))"

section \<open>The lexer (lexer.cpp)\<close>

subsection \<open>Tokens\<close>

text \<open>
  The alternatives of \<open>Token\<close>, as \<open>operator<<\<close> lists them. The token types
  live in the namespace \<open>token_type\<close>; here they carry the prefix \<open>T\<close>, since
  \<open>Number\<close>, \<open>String\<close>, \<open>Return\<close> and others are also names of the runtime and
  of the statement tree. \<open>operator==\<close> on tokens compares the alternative and, for
  \<open>Char\<close>, \<open>Number\<close>, \<open>String\<close> and \<open>Id\<close>, the value: it is the equality of
  this datatype.
\<close>

datatype token =
    TNumber int | TId string | TString string | TChar char
  | TClass | TReturn | TIf | TElse | TDef | TNewline | TPrint | TIndent | TDedent
  | TAnd | TOr | TNot | TEq | TNotEq | TLessOrEq | TGreaterOrEq
  | TNone | TTrue | TFalse | TEof

text \<open>
  Modelled from the spec: the keyword table \<open>keywords_\<close> is declared in lexer.h,
  which is not among the sources; the spec gives its keys
  (class return if else def print and or not None True False).
\<close>

definition keywords_table :: "string \<rightharpoonup> token" where
  "keywords_table = map_of
     [(''class'', TClass), (''return'', TReturn), (''if'', TIf), (''else'', TElse),
      (''def'', TDef), (''print'', TPrint), (''and'', TAnd), (''or'', TOr), (''not'', TNot),
      (''None'', TNone), (''True'', TTrue), (''False'', TFalse)]"

datatype lex_error =
    logic_error string
  | out_of_range

subsection \<open>The input stream\<close>

text \<open>
  A \<open>std::istream\<close> over a buffer in memory: the characters not yet read and the
  state bits. \<open>badbit\<close> is left out: only a \<open>putback\<close> with no character to
  back up to could set it, and every \<open>putback\<close> of the lexer on a stream without
  \<open>failbit\<close> follows a read of the very character it puts back.
\<close>

record istream =
  chars :: string
  eofbit :: bool
  failbit :: bool

definition good :: "istream \<Rightarrow> bool" where
  "good s = (\<not> eofbit s \<and> \<not> failbit s)"

text \<open>\<open>input.rdstate() != std::ios_base::eofbit\<close>\<close>

definition rdstate_not_eofbit :: "istream \<Rightarrow> bool" where
  "rdstate_not_eofbit s = (\<not> (eofbit s \<and> \<not> failbit s))"

text \<open>
  \<open>get(c)\<close> and \<open>get()\<close>: on a stream that is not good the sentry sets \<open>failbit\<close>
  and nothing is read; at the end of the buffer \<open>eofbit\<close> and \<open>failbit\<close> are set.
\<close>

definition istream_get :: "istream \<Rightarrow> char option \<times> istream" where
  "istream_get s =
     (if \<not> good s then (None, s\<lparr>failbit := True\<rparr>)
      else case chars s of
             [] \<Rightarrow> (None, s\<lparr>eofbit := True, failbit := True\<rparr>)
           | c # cs \<Rightarrow> (Some c, s\<lparr>chars := cs\<rparr>))"

text \<open>\<open>peek()\<close>: at the end of the buffer only \<open>eofbit\<close> is set.\<close>

definition istream_peek :: "istream \<Rightarrow> char option \<times> istream" where
  "istream_peek s =
     (if \<not> good s then (None, s\<lparr>failbit := True\<rparr>)
      else case chars s of
             [] \<Rightarrow> (None, s\<lparr>eofbit := True\<rparr>)
           | c # cs \<Rightarrow> (Some c, s))"

text \<open>
  \<open>putback(c)\<close> clears \<open>eofbit\<close> first; then, with \<open>failbit\<close> set, the sentry
  fails and the buffer is left as it is.
\<close>

definition istream_putback :: "char \<Rightarrow> istream \<Rightarrow> istream" where
  "istream_putback c s =
     (if failbit s then s\<lparr>eofbit := False\<rparr>
      else s\<lparr>chars := c # chars s, eofbit := False\<rparr>)"

text \<open>
  The \<open>int\<close> that \<open>get()\<close> and \<open>peek()\<close> return, once stored in a \<open>char\<close>:
  \<open>EOF\<close>, which is -1, becomes the byte 0xFF.
\<close>

definition to_char :: "char option \<Rightarrow> char" where
  "to_char r = (case r of None \<Rightarrow> CHR 0xFF | Some c \<Rightarrow> c)"

text \<open>
  The value of a \<open>char\<close> variable that no \<open>get\<close> has written yet. The code reads
  it only where the stream has \<open>failbit\<close> set, and there no result depends on it
  (see \<open>putback_failed\<close> below).
\<close>

definition indeterminate :: "char option \<Rightarrow> char" where
  "indeterminate r = (case r of None \<Rightarrow> CHR 0x00 | Some c \<Rightarrow> c)"

subsection \<open>Character classes of the C locale\<close>

text \<open>
  \<open>std::isdigit\<close>, \<open>std::isalpha\<close>, \<open>std::isalnum\<close>, \<open>std::ispunct\<close> on 7-bit
  characters; they are false on \<open>EOF\<close>, and bytes from 0x80 on are taken as being
  in none of the classes.
\<close>

definition isdigit :: "char \<Rightarrow> bool" where
  "isdigit c = (let n = (of_char c :: int) in 48 \<le> n \<and> n \<le> 57)"

definition isalpha :: "char \<Rightarrow> bool" where
  "isalpha c = (let n = (of_char c :: int) in (65 \<le> n \<and> n \<le> 90) \<or> (97 \<le> n \<and> n \<le> 122))"

definition isalnum :: "char \<Rightarrow> bool" where
  "isalnum c = (isalpha c \<or> isdigit c)"

definition ispunct :: "char \<Rightarrow> bool" where
  "ispunct c = (let n = (of_char c :: int) in
     (33 \<le> n \<and> n \<le> 47) \<or> (58 \<le> n \<and> n \<le> 64) \<or> (91 \<le> n \<and> n \<le> 96) \<or> (123 \<le> n \<and> n \<le> 126))"

subsection \<open>The lexer state\<close>

text \<open>
  \<open>tokens_\<close> and \<open>space_count_\<close> with the stream. \<open>space_count_\<close> is declared
  in lexer.h; it is taken to start at 0.
\<close>

record lexer =
  input :: istream
  tokens :: "token list"
  space_count :: int

definition emplace_back :: "token \<Rightarrow> lexer \<Rightarrow> lexer" where
  "emplace_back t L = L\<lparr>tokens := tokens L @ [t]\<rparr>"

text \<open>\<open>!tokens_.empty() && tokens_.back() != t\<close>\<close>

definition back_is_not :: "token list \<Rightarrow> token \<Rightarrow> bool" where
  "back_is_not ts t = (case rev ts of [] \<Rightarrow> False | b # _ \<Rightarrow> b \<noteq> t)"

subsection \<open>ParseIndent\<close>

text \<open>
  \<open>while (input.get(current_char) && current_char == ' ') ++spaces_count;\<close>
  over the unread characters of a good stream: the count, the last character read
  when the last \<open>get\<close> succeeded, and the stream.
\<close>

fun ParseIndent_loop :: "istream \<Rightarrow> string \<Rightarrow> int \<Rightarrow> int \<times> char option \<times> istream" where
  "ParseIndent_loop s [] n = (n, None, s\<lparr>chars := [], eofbit := True, failbit := True\<rparr>)"
| "ParseIndent_loop s (c # cs) n =
     (if c = CHR '' '' then ParseIndent_loop s cs (n + 1)
      else (n, Some c, s\<lparr>chars := cs\<rparr>))"

definition ParseIndent :: "lexer \<Rightarrow> lexer" where
  "ParseIndent L =
     (let s = input L;
          (spaces_count, r, s1) =
             (if good s then ParseIndent_loop s (chars s) 0
              else (0, None, s\<lparr>failbit := True\<rparr>));
          s2 = (if rdstate_not_eofbit s1 then istream_putback (indeterminate r) s1 else s1);
          (p, s3) = istream_peek s2;
          next_char = to_char p
      in if next_char = CHR 0x0A \<or> next_char = CHR ''#'' then L\<lparr>input := s3\<rparr>
         else
           let indents_count = (spaces_count - space_count L) sdiv 2;
               indent_type = (if indents_count > 0 then TIndent else TDedent)
           in L\<lparr>input := s3,
                 tokens := tokens L @ replicate (nat \<bar>indents_count\<bar>) indent_type,
                 space_count := spaces_count\<rparr>)"

subsection \<open>ParseNewLine\<close>

definition ParseNewLine :: "lexer \<Rightarrow> lexer" where
  "ParseNewLine L =
     (let (r, s1) = istream_get (input L)
      in if r = Some (CHR 0x0A) then
           ParseIndent
             ((if back_is_not (tokens L) TNewline then emplace_back TNewline L else L)
                \<lparr>input := s1\<rparr>)
         else L\<lparr>input := istream_putback (indeterminate r) s1\<rparr>)"

subsection \<open>ParseStrings\<close>

text \<open>
  The \<open>while (input.get(current_char))\<close> loop of \<open>ParseStrings\<close> over the unread
  characters, the stream being good after the opening quote was read. When
  \<open>input.get(esc_char)\<close> fails after a backslash, nothing is appended and the next
  \<open>get\<close> of the loop condition fails too.
\<close>

fun ParseStrings_loop :: "istream \<Rightarrow> char \<Rightarrow> string \<Rightarrow> string \<Rightarrow> lex_error + (string \<times> istream)" where
  "ParseStrings_loop s open_char [] str =
     Inr (str, s\<lparr>chars := [], eofbit := True, failbit := True\<rparr>)"
| "ParseStrings_loop s open_char (c # cs) str =
     (if c = open_char then Inr (str, s\<lparr>chars := cs\<rparr>)
      else if c = CHR 0x5C then
        (case cs of
           [] \<Rightarrow> Inr (str, s\<lparr>chars := [], eofbit := True, failbit := True\<rparr>)
         | esc_char # cs' \<Rightarrow>
             if esc_char = CHR ''n'' then ParseStrings_loop s open_char cs' (str @ [CHR 0x0A])
             else if esc_char = CHR ''t'' then ParseStrings_loop s open_char cs' (str @ [CHR 0x09])
             else if esc_char = CHR ''r'' then ParseStrings_loop s open_char cs' (str @ [CHR 0x0D])
             else if esc_char = CHR 0x22 then ParseStrings_loop s open_char cs' (str @ [CHR 0x22])
             else if esc_char = CHR 0x27 then ParseStrings_loop s open_char cs' (str @ [CHR 0x27])
             else if esc_char = CHR 0x5C then ParseStrings_loop s open_char cs' (str @ [CHR 0x5C])
             else Inl (logic_error (''Unrecognized escape sequence '' @ [CHR 0x5C, esc_char])))
      else if c = CHR 0x0A \<or> c = CHR 0x0D then Inl (logic_error ''Unexpected end of line'')
      else ParseStrings_loop s open_char cs (str @ [c]))"

definition ParseStrings :: "lexer \<Rightarrow> lex_error + lexer" where
  "ParseStrings L =
     (let (r, s1) = istream_get (input L);
          open_char = to_char r
      in if open_char = CHR 0x27 \<or> open_char = CHR 0x22 then
           (case (if good s1 then ParseStrings_loop s1 open_char (chars s1) []
                  else Inr ([], s1\<lparr>failbit := True\<rparr>)) of
              Inl e \<Rightarrow> Inl e
            | Inr (str, s2) \<Rightarrow> Inr (emplace_back (TString str) (L\<lparr>input := s2\<rparr>)))
         else Inr (L\<lparr>input := istream_putback open_char s1\<rparr>))"

subsection \<open>ParseId\<close>

text \<open>
  The loop of \<open>ParseId\<close> over the unread characters of a good stream: a character
  that does not belong to the identifier is read and put back.
\<close>

fun ParseId_loop :: "istream \<Rightarrow> string \<Rightarrow> string \<Rightarrow> string \<times> istream" where
  "ParseId_loop s [] ident = (ident, s\<lparr>chars := [], eofbit := True, failbit := True\<rparr>)"
| "ParseId_loop s (c # cs) ident =
     (if isalnum c \<or> c = CHR ''_'' then ParseId_loop s cs (ident @ [c])
      else (ident, istream_putback c (s\<lparr>chars := cs\<rparr>)))"

definition ParseId :: "lexer \<Rightarrow> lexer" where
  "ParseId L =
     (let (p, s1) = istream_peek (input L);
          current_char = to_char p
      in if isalpha current_char \<or> current_char = CHR ''_'' then
           (let (ident, s2) =
                  (if good s1 then ParseId_loop s1 (chars s1) []
                   else ([], s1\<lparr>failbit := True\<rparr>))
            in case keywords_table ident of
                 Some kw \<Rightarrow> emplace_back kw (L\<lparr>input := s2\<rparr>)
               | None \<Rightarrow> emplace_back (TId ident) (L\<lparr>input := s2\<rparr>))
         else L\<lparr>input := s1\<rparr>)"

subsection \<open>ParseComparisonOperators\<close>

definition ParseComparisonOperators :: "lexer \<Rightarrow> lexer" where
  "ParseComparisonOperators L =
     (let (r, s1) = istream_get (input L);
          current_char = indeterminate r;
          (p, s2) = istream_peek s1;
          next_char = to_char p
      in if current_char = CHR ''='' \<and> next_char = CHR ''='' then
           emplace_back TEq (L\<lparr>input := snd (istream_get s2)\<rparr>)
         else if current_char = CHR ''>'' \<and> next_char = CHR ''='' then
           emplace_back TGreaterOrEq (L\<lparr>input := snd (istream_get s2)\<rparr>)
         else if current_char = CHR ''<'' \<and> next_char = CHR ''='' then
           emplace_back TLessOrEq (L\<lparr>input := snd (istream_get s2)\<rparr>)
         else if current_char = CHR ''!'' \<and> next_char = CHR ''='' then
           emplace_back TNotEq (L\<lparr>input := snd (istream_get s2)\<rparr>)
         else L\<lparr>input := istream_putback current_char s2\<rparr>)"

subsection \<open>SkipComment and ParseChar\<close>

text \<open>
  \<open>getline(input, comment, '\n')\<close> over the unread characters of a good stream.
  The delimiter is read and dropped. At the end of the buffer \<open>eofbit\<close> is set, and
  \<open>failbit\<close> too when no character was extracted.
\<close>

fun getline_loop :: "istream \<Rightarrow> string \<Rightarrow> bool \<Rightarrow> istream" where
  "getline_loop s [] extracted = s\<lparr>chars := [], eofbit := True, failbit := \<not> extracted\<rparr>"
| "getline_loop s (c # cs) extracted =
     (if c = CHR 0x0A then s\<lparr>chars := cs\<rparr> else getline_loop s cs True)"

definition getline :: "istream \<Rightarrow> istream" where
  "getline s = (if good s then getline_loop s (chars s) False else s\<lparr>failbit := True\<rparr>)"

definition SkipComment :: "istream \<Rightarrow> istream" where
  "SkipComment s =
     (let (r, s1) = istream_get s;
          current_char = indeterminate r
      in if current_char = CHR ''#'' then
           (let s2 = getline s1
            in if rdstate_not_eofbit s2 then istream_putback (CHR 0x0A) s2 else s2)
         else istream_putback current_char s1)"

definition ParseChar :: "lexer \<Rightarrow> lexer" where
  "ParseChar L =
     (let (p, s1) = istream_peek (input L);
          current_char = to_char p
      in if ispunct current_char then
           (if current_char = CHR ''#'' then L\<lparr>input := SkipComment s1\<rparr>
            else
              let (r, s2) = istream_get s1
              in emplace_back (TChar (case r of Some c \<Rightarrow> c | None \<Rightarrow> current_char))
                   (L\<lparr>input := s2\<rparr>))
         else L\<lparr>input := s1\<rparr>)"

subsection \<open>ParseNumbers\<close>

fun ParseNumbers_loop :: "istream \<Rightarrow> string \<Rightarrow> string \<Rightarrow> string \<times> istream" where
  "ParseNumbers_loop s [] num = (num, s\<lparr>chars := [], eofbit := True, failbit := True\<rparr>)"
| "ParseNumbers_loop s (c # cs) num =
     (if isdigit c then ParseNumbers_loop s cs (num @ [c])
      else (num, istream_putback c (s\<lparr>chars := cs\<rparr>)))"

text \<open>The value of a string of decimal digits.\<close>

definition digits_value :: "string \<Rightarrow> int" where
  "digits_value num = foldl (\<lambda>acc c. acc * 10 + (of_char c - 48)) 0 num"

text \<open>
  \<open>std::stoi\<close> on a non-empty string of digits: \<open>std::out_of_range\<close> when the
  value does not fit an \<open>int\<close>.
\<close>

definition stoi :: "string \<Rightarrow> lex_error + int" where
  "stoi num = (if digits_value num \<le> 2147483647 then Inr (digits_value num)
               else Inl out_of_range)"

definition ParseNumbers :: "lexer \<Rightarrow> lex_error + lexer" where
  "ParseNumbers L =
     (let (p, s1) = istream_peek (input L);
          current_char = to_char p
      in if isdigit current_char then
           (let (num, s2) =
                  (if good s1 then ParseNumbers_loop s1 (chars s1) []
                   else ([], s1\<lparr>failbit := True\<rparr>))
            in case stoi num of
                 Inl e \<Rightarrow> Inl e
               | Inr result_num \<Rightarrow> Inr (emplace_back (TNumber result_num) (L\<lparr>input := s2\<rparr>)))
         else Inr (L\<lparr>input := s1\<rparr>))"

subsection \<open>SkipSpaces\<close>

text \<open>
  \<open>while (input.peek() == ' ') input.get();\<close> over the unread characters of a good
  stream: the \<open>peek\<close> that finds the end of the buffer sets \<open>eofbit\<close>.
\<close>

fun SkipSpaces_loop :: "istream \<Rightarrow> string \<Rightarrow> istream" where
  "SkipSpaces_loop s [] = s\<lparr>chars := [], eofbit := True\<rparr>"
| "SkipSpaces_loop s (c # cs) =
     (if c = CHR '' '' then SkipSpaces_loop s cs else s\<lparr>chars := c # cs\<rparr>)"

definition SkipSpaces :: "lexer \<Rightarrow> lexer" where
  "SkipSpaces L =
     (let s = input L
      in L\<lparr>input := (if good s then SkipSpaces_loop s (chars s) else s\<lparr>failbit := True\<rparr>)\<rparr>)"

subsection \<open>ParseTokens\<close>

text \<open>One pass through the body of the \<open>while\<close> loop of \<open>ParseTokens\<close>.\<close>

definition ParseTokens_body :: "lexer \<Rightarrow> lex_error + lexer" where
  "ParseTokens_body L =
     (case ParseStrings (ParseNewLine L) of
        Inl e \<Rightarrow> Inl e
      | Inr L1 \<Rightarrow>
          (case ParseNumbers (ParseChar (ParseComparisonOperators (ParseId L1))) of
             Inl e \<Rightarrow> Inl e
           | Inr L2 \<Rightarrow> Inr (SkipSpaces L2)))"

text \<open>
  The \<open>while (input.get(current_char))\<close> loop. A pass need not read a character
  (none of the scanners takes a tab, for one), so the loop is bounded by fuel:
  \<open>None\<close> says that the fuel did not suffice.
\<close>

fun ParseTokens_loop :: "nat \<Rightarrow> lexer \<Rightarrow> (lex_error + lexer) option" where
  "ParseTokens_loop 0 L = None"
| "ParseTokens_loop (Suc n) L =
     (case istream_get (input L) of
        (None, s1) \<Rightarrow> Some (Inr (L\<lparr>input := s1\<rparr>))
      | (Some current_char, s1) \<Rightarrow>
          (case ParseTokens_body (L\<lparr>input := istream_putback current_char s1\<rparr>) of
             Inl e \<Rightarrow> Some (Inl e)
           | Inr L' \<Rightarrow> ParseTokens_loop n L'))"

text \<open>What \<open>ParseTokens\<close> does with \<open>tokens_\<close> once the loop has ended.\<close>

definition ParseTokens_end :: "token list \<Rightarrow> token list" where
  "ParseTokens_end ts =
     (if back_is_not ts TNewline \<and> back_is_not ts TDedent then ts @ [TNewline] else ts) @ [TEof]"

text \<open>
  \<open>Lexer::ParseTokens\<close> on a fresh stream over the text, as the constructor calls it:
  the token vector, or the exception thrown, or \<open>None\<close> when the fuel ran out.
\<close>

definition ParseTokens :: "nat \<Rightarrow> string \<Rightarrow> (lex_error + token list) option" where
  "ParseTokens fuel text_in =
     (case ParseTokens_loop fuel
             \<lparr>input = \<lparr>chars = text_in, eofbit = False, failbit = False\<rparr>,
              tokens = [], space_count = 0\<rparr> of
        None \<Rightarrow> None
      | Some (Inl e) \<Rightarrow> Some (Inl e)
      | Some (Inr L) \<Rightarrow> Some (Inr (ParseTokens_end (tokens L))))"

subsection \<open>Notions for the progress of the loop\<close>

text \<open>
  The characters that some scanner of the loop takes: a newline, a space, a letter,
  a digit, a punctuation character (the quotes and the underscore are among them).
\<close>

definition lexable :: "char \<Rightarrow> bool" where
  "lexable c = (c = CHR 0x0A \<or> c = CHR '' '' \<or> isalpha c \<or> isdigit c \<or> ispunct c)"

text \<open>
  How a scanner may leave the stream \<open>s'\<close> when it found it as \<open>s\<close>: it has read
  characters, or the unread characters are the same and a good stream that was not
  at its end is as it was.
\<close>

definition scans :: "istream \<Rightarrow> istream \<Rightarrow> bool" where
  "scans s s' =
     (set (chars s') \<subseteq> set (chars s) \<and>
      (length (chars s') < length (chars s) \<or>
       (chars s' = chars s \<and> (if good s \<and> chars s \<noteq> [] then s' = s else True))))"

section \<open>Example inputs\<close>



definition example_closure :: Closure where
  "example_closure =
     [''t'' \<mapsto> Some (Bool True), ''x'' \<mapsto> Some (Number 42), ''p'' \<mapsto> Some (ClassInstance 0)]"

definition empty_state :: state where
  "empty_state = \<lparr>heap = Map.empty, out = [], moved = {}\<rparr>"

section \<open>Properties of the runtime\<close>

text \<open>
  C8: truthiness. An empty holder is false; a \<open>Bool\<close> is its value; a \<open>Number\<close> is
  true iff it is not zero; a \<open>String\<close> is true iff it is not empty; an instance and
  a class are false.
\<close>

theorem IsTrue_by_kind:
  "IsTrue None = False
   \<and> IsTrue (Some (Bool b)) = b
   \<and> IsTrue (Some (Number v)) = (v \<noteq> 0)
   \<and> IsTrue (Some (String t)) = (t \<noteq> [])
   \<and> IsTrue (Some (ClassInstance a)) = False
   \<and> IsTrue (Some (ClassObject cl)) = False"
  by simp

subsection \<open>The method index\<close>

lemma map_of_index_set: "map_of (index_set k m idx) = (map_of idx)(k \<mapsto> m)"
  by (induction idx) (auto simp: fun_eq_iff)

lemma find_app:
  "List.find P (xs @ ys) = (case List.find P xs of None \<Rightarrow> List.find P ys | Some x \<Rightarrow> Some x)"
  by (induction xs) auto

lemma map_of_index_methods:
  "map_of (index_methods ms idx) k =
     (case List.find (\<lambda>m. name m = k) (rev ms) of Some m \<Rightarrow> Some m | None \<Rightarrow> map_of idx k)"
proof (induction ms arbitrary: idx)
  case Nil
  then show ?case by simp
next
  case (Cons m ms)
  show ?case
    by (simp add: Cons.IH map_of_index_set find_app split: option.splits)
qed

text \<open>
  What the index of a constructed class holds under a name: the last method of that
  name that the class declares; when it declares none and has a parent, the last
  method of that name that the parent declares itself. The index of the parent is
  not consulted.
\<close>

lemma GetMethod_mk_Class:
  "GetMethod (mk_Class nm ms parent) k =
     (case List.find (\<lambda>m. name m = k) (rev ms) of
        Some m \<Rightarrow> Some m
      | None \<Rightarrow> (case parent of
                   None \<Rightarrow> None
                 | Some p \<Rightarrow> List.find (\<lambda>m. name m = k) (rev (cls_methods p))))"
  by (simp add: GetMethod_def mk_Class_def map_of_index_methods split: option.splits)

text \<open>
  C1: the index of a class should hold the index of its parent and the methods the
  class declares. In the chain C, P, G below, \<open>m\<close> is declared by the grandparent G
  only: P resolves \<open>m\<close> to the definition of G, and C does not resolve it at all.
\<close>

theorem GetMethod_grandparent_method_missing:
  "GetMethod (mk_Class ''G'' [Method ''m'' [] (Compound [])] None) ''m''
     = Some (Method ''m'' [] (Compound []))
   \<and> GetMethod (mk_Class ''P'' [] (Some (mk_Class ''G'' [Method ''m'' [] (Compound [])] None))) ''m''
     = Some (Method ''m'' [] (Compound []))
   \<and> GetMethod
        (mk_Class ''C'' []
           (Some (mk_Class ''P'' [] (Some (mk_Class ''G'' [Method ''m'' [] (Compound [])] None)))))
        ''m''
     = None"
  by (simp add: GetMethod_def mk_Class_def)

section \<open>Properties of the lexer\<close>

text \<open>With \<open>failbit\<close> set, \<open>putback\<close> does not look at its argument.\<close>

lemma putback_failed: "failbit s \<Longrightarrow> istream_putback c s = istream_putback c' s"
  by (simp add: istream_putback_def)

lemmas lexer_defs =
  ParseTokens_def ParseTokens_body_def ParseNewLine_def ParseIndent_def ParseStrings_def
  ParseId_def ParseComparisonOperators_def ParseChar_def SkipComment_def getline_def
  ParseNumbers_def SkipSpaces_def ParseTokens_end_def stoi_def digits_value_def
  istream_get_def istream_peek_def istream_putback_def good_def rdstate_not_eofbit_def
  to_char_def indeterminate_def emplace_back_def back_is_not_def keywords_table_def
  isalpha_def isalnum_def isdigit_def ispunct_def

text \<open>
  A pass of the loop over a tab reads nothing and leaves the lexer as it was: on
  such an input no amount of fuel suffices.
\<close>

lemma ParseTokens_body_tab:
  "ParseTokens_body \<lparr>input = \<lparr>chars = [CHR 0x09], eofbit = False, failbit = False\<rparr>,
                      tokens = [], space_count = 0\<rparr>
   = Inr \<lparr>input = \<lparr>chars = [CHR 0x09], eofbit = False, failbit = False\<rparr>,
          tokens = [], space_count = 0\<rparr>"
  by (simp add: lexer_defs)

lemma ParseTokens_loop_tab:
  "ParseTokens_loop fuel \<lparr>input = \<lparr>chars = [CHR 0x09], eofbit = False, failbit = False\<rparr>,
                           tokens = [], space_count = 0\<rparr> = None"
  by (induction fuel) (simp_all add: ParseTokens_body_tab istream_get_def istream_putback_def good_def)

lemma ParseTokens_tab_never_ends: "ParseTokens fuel [CHR 0x09] = None"
  by (simp add: ParseTokens_def ParseTokens_loop_tab)

subsection \<open>The loop ends on every input of lexable characters\<close>

lemma EOF_char_class:
  "\<not> isalpha (CHR 0xFF)" "\<not> isdigit (CHR 0xFF)" "\<not> ispunct (CHR 0xFF)" "CHR 0xFF \<noteq> CHR ''_''"
  by (simp_all add: isalpha_def isdigit_def ispunct_def)

lemma ParseIndent_loop_res:
  "ParseIndent_loop s cs n = (k, r, s') \<Longrightarrow>
     set (chars s') \<subseteq> set cs \<and>
     (case r of
        None \<Rightarrow> chars s' = [] \<and> failbit s'
      | Some c \<Rightarrow> c \<in> set cs \<and> length (chars s') < length cs
                  \<and> failbit s' = failbit s \<and> eofbit s' = eofbit s)"
proof (induction s cs n rule: ParseIndent_loop.induct)
  case (1 s n)
  then show ?case by auto
next
  case (2 s c cs n)
  show ?case
  proof (cases "c = CHR '' ''")
    case True
    with 2 show ?thesis by (auto split: option.splits)
  next
    case False
    with 2 show ?thesis by auto
  qed
qed

lemma ParseIndent_le:
  "set (chars (input (ParseIndent L))) \<subseteq> set (chars (input L))
   \<and> length (chars (input (ParseIndent L))) \<le> length (chars (input L))"
proof (cases "good (input L)")
  case False
  then show ?thesis
    by (auto simp: ParseIndent_def Let_def istream_peek_def istream_putback_def
        rdstate_not_eofbit_def good_def split: prod.splits list.splits)
next
  case True
  obtain k r s' where h: "ParseIndent_loop (input L) (chars (input L)) 0 = (k, r, s')"
    by (cases "ParseIndent_loop (input L) (chars (input L)) 0") auto
  from ParseIndent_loop_res[OF h] True h show ?thesis
    by (cases r)
       (auto simp: ParseIndent_def Let_def istream_peek_def istream_putback_def
        rdstate_not_eofbit_def good_def indeterminate_def split: prod.splits list.splits)
qed

lemma ParseNewLine_scans: "scans (input L) (input (ParseNewLine L))"
proof (cases "istream_get (input L)")
  case (Pair r s1)
  show ?thesis
  proof (cases "r = Some (CHR 0x0A)")
    case True
    have a: "set (chars s1) \<subseteq> set (chars (input L)) \<and> length (chars s1) < length (chars (input L))"
      using Pair True by (auto simp: istream_get_def split: if_splits list.splits)
    have b: "set (chars (input (ParseIndent (L'\<lparr>input := s1\<rparr>)))) \<subseteq> set (chars s1)
       \<and> length (chars (input (ParseIndent (L'\<lparr>input := s1\<rparr>)))) \<le> length (chars s1)" for L'
      using ParseIndent_le[of "L'\<lparr>input := s1\<rparr>"] by simp
    from a b[of L] b[of "emplace_back TNewline L"] Pair True show ?thesis
      by (auto simp: ParseNewLine_def emplace_back_def scans_def)
  next
    case False
    with Pair show ?thesis
      by (auto simp: ParseNewLine_def scans_def istream_get_def istream_putback_def
          good_def indeterminate_def split: if_splits list.splits)
  qed
qed

lemma ParseNewLine_progress:
  "good (input L) \<Longrightarrow> chars (input L) = CHR 0x0A # cs \<Longrightarrow>
   length (chars (input (ParseNewLine L))) < length (chars (input L))"
proof -
  assume g: "good (input L)" and c: "chars (input L) = CHR 0x0A # cs"
  have b: "length (chars (input (ParseIndent (L'\<lparr>input := sa\<rparr>)))) \<le> length (chars sa)" for L' sa
    using ParseIndent_le[of "L'\<lparr>input := sa\<rparr>"] by simp
  from g c b[where L' = L and sa = "input L\<lparr>chars := cs\<rparr>"]
    b[where L' = "emplace_back TNewline L" and sa = "input L\<lparr>chars := cs\<rparr>"]
  show ?thesis
    by (auto simp: ParseNewLine_def istream_get_def emplace_back_def)
qed

lemma ParseStrings_loop_res:
  "ParseStrings_loop s q cs str = Inr (str', s') \<Longrightarrow>
     set (chars s') \<subseteq> set cs \<and> length (chars s') \<le> length cs"
proof (induction s q cs str rule: ParseStrings_loop.induct)
  case (1 s q str)
  then show ?case by auto
next
  case (2 s q c cs str)
  then show ?case
    by (auto split: if_splits list.splits)
qed

lemma ParseStrings_scans:
  "ParseStrings L = Inr L' \<Longrightarrow> scans (input L) (input L')"
proof (cases "istream_get (input L)")
  case (Pair r s1)
  assume h: "ParseStrings L = Inr L'"
  show ?thesis
  proof (cases "to_char r = CHR 0x27 \<or> to_char r = CHR 0x22")
    case True
    show ?thesis
    proof (cases "good s1")
      case True': True
      from Pair h True True' obtain str s2 where
        l: "ParseStrings_loop s1 (to_char r) (chars s1) [] = Inr (str, s2)" and
        e: "input L' = s2"
        by (auto simp: ParseStrings_def emplace_back_def split: sum.splits)
      from Pair True' have "set (chars s1) \<subseteq> set (chars (input L)) \<and>
          length (chars s1) < length (chars (input L))"
        by (auto simp: istream_get_def good_def split: if_splits list.splits)
      with ParseStrings_loop_res[OF l] e show ?thesis
        by (auto simp: scans_def)
    next
      case False
      with Pair h True show ?thesis
        by (auto simp: ParseStrings_def emplace_back_def scans_def istream_get_def good_def
            split: if_splits list.splits)
    qed
  next
    case False
    with Pair h show ?thesis
      by (auto simp: ParseStrings_def scans_def istream_get_def istream_putback_def
          good_def to_char_def split: if_splits list.splits option.splits)
  qed
qed

lemma ParseStrings_progress:
  "good (input L) \<Longrightarrow> chars (input L) = c # cs \<Longrightarrow> c = CHR 0x27 \<or> c = CHR 0x22 \<Longrightarrow>
   ParseStrings L = Inr L' \<Longrightarrow>
   length (chars (input L')) < length (chars (input L))"
proof -
  assume g: "good (input L)" and c: "chars (input L) = c # cs" and q: "c = CHR 0x27 \<or> c = CHR 0x22"
    and h: "ParseStrings L = Inr L'"
  from g c have gs: "istream_get (input L) = (Some c, input L\<lparr>chars := cs\<rparr>)"
    by (simp add: istream_get_def)
  from g have g1: "good (input L\<lparr>chars := cs\<rparr>)" by (simp add: good_def)
  from h gs q g1 obtain str s2 where
    l: "ParseStrings_loop (input L\<lparr>chars := cs\<rparr>) c cs [] = Inr (str, s2)" and e: "input L' = s2"
    by (auto simp: ParseStrings_def emplace_back_def to_char_def split: sum.splits)
  from ParseStrings_loop_res[OF l] e c show ?thesis by auto
qed

lemma ParseId_loop_res:
  "\<not> failbit s \<Longrightarrow> ParseId_loop s cs ident = (ident', s') \<Longrightarrow>
     set (chars s') \<subseteq> set cs \<and> length (chars s') \<le> length cs
     \<and> (case cs of [] \<Rightarrow> True
         | c # cs' \<Rightarrow> if isalnum c \<or> c = CHR ''_'' then length (chars s') < length cs else True)"
proof (induction s cs ident arbitrary: ident' s' rule: ParseId_loop.induct)
  case (1 s ident)
  then show ?case by auto
next
  case (2 s c cs ident)
  show ?case
  proof (cases "isalnum c \<or> c = CHR ''_''")
    case True
    with 2 have "set (chars s') \<subseteq> set cs \<and> length (chars s') \<le> length cs" by auto
    with True show ?thesis by auto
  next
    case False
    with 2 show ?thesis by (auto simp: istream_putback_def)
  qed
qed

lemma ParseId_scans: "scans (input L) (input (ParseId L))"
proof (cases "istream_peek (input L)")
  case (Pair p s1)
  show ?thesis
  proof (cases "isalpha (to_char p) \<or> to_char p = CHR ''_''")
    case True
    show ?thesis
    proof (cases "good s1")
      case g: True
      obtain ident s2 where l: "ParseId_loop s1 (chars s1) [] = (ident, s2)"
        by (cases "ParseId_loop s1 (chars s1) []") auto
      from g have nf: "\<not> failbit s1" by (simp add: good_def)
      from Pair have e: "chars s1 = chars (input L)"
        by (auto simp: istream_peek_def split: if_splits list.splits)
      from Pair True g l have i: "input (ParseId L) = s2"
        by (auto simp: ParseId_def emplace_back_def split: option.splits)
      from Pair True g have ne: "chars s1 \<noteq> []"
        by (auto simp: istream_peek_def to_char_def EOF_char_class split: if_splits list.splits)
      then obtain c cs where cc: "chars s1 = c # cs" by (cases "chars s1") auto
      with Pair True g e have al: "isalnum c \<or> c = CHR ''_''"
        by (auto simp: istream_peek_def to_char_def isalnum_def good_def split: if_splits list.splits)
      from ParseId_loop_res[OF nf l] cc al e i show ?thesis
        by (auto simp: scans_def)
    next
      case False
      with Pair True show ?thesis
        by (auto simp: ParseId_def emplace_back_def scans_def istream_peek_def good_def
            to_char_def EOF_char_class
            split: option.splits if_splits list.splits)
    qed
  next
    case False
    with Pair show ?thesis
      by (auto simp: ParseId_def scans_def istream_peek_def good_def
          split: if_splits list.splits)
  qed
qed

lemma ParseId_progress:
  "good (input L) \<Longrightarrow> chars (input L) = c # cs \<Longrightarrow> isalpha c \<or> c = CHR ''_'' \<Longrightarrow>
   length (chars (input (ParseId L))) < length (chars (input L))"
proof -
  assume g: "good (input L)" and c: "chars (input L) = c # cs" and a: "isalpha c \<or> c = CHR ''_''"
  obtain ident s2 where l: "ParseId_loop (input L) (c # cs) [] = (ident, s2)"
    by (cases "ParseId_loop (input L) (c # cs) []") auto
  from g have nf: "\<not> failbit (input L)" by (simp add: good_def)
  from a have al: "isalnum c \<or> c = CHR ''_''" by (auto simp: isalnum_def)
  from g c a l have i: "input (ParseId L) = s2"
    by (auto simp: ParseId_def emplace_back_def istream_peek_def to_char_def split: option.splits)
  from ParseId_loop_res[OF nf l] al i c show ?thesis by auto
qed

lemma ParseComparisonOperators_scans: "scans (input L) (input (ParseComparisonOperators L))"
  by (auto simp: ParseComparisonOperators_def scans_def Let_def istream_get_def istream_peek_def
      istream_putback_def good_def indeterminate_def to_char_def emplace_back_def
      split: if_splits list.splits prod.splits)


lemma getline_loop_res:
  "good s \<Longrightarrow>
   (eofbit (getline_loop s cs ex) \<and> chars (getline_loop s cs ex) = []) \<or>
   (good (getline_loop s cs ex) \<and> CHR 0x0A \<in> set cs
    \<and> length (chars (getline_loop s cs ex)) < length cs
    \<and> set (chars (getline_loop s cs ex)) \<subseteq> set cs)"
  by (induction s cs ex rule: getline_loop.induct) (auto simp: good_def)

lemma SkipComment_res:
  assumes "good s" "chars s = CHR ''#'' # cs"
  shows "set (chars (SkipComment s)) \<subseteq> set (chars s) \<and> length (chars (SkipComment s)) < length (chars s)"
proof -
  from assms have g: "good (s\<lparr>chars := cs\<rparr>)" by (simp add: good_def)
  from assms have e: "SkipComment s =
     (let s2 = getline_loop (s\<lparr>chars := cs\<rparr>) cs False
      in if rdstate_not_eofbit s2 then istream_putback (CHR 0x0A) s2 else s2)"
    by (simp add: SkipComment_def istream_get_def getline_def good_def indeterminate_def)
  from getline_loop_res[OF g, of cs False] assms show ?thesis
    unfolding e
    by (auto simp: Let_def rdstate_not_eofbit_def istream_putback_def good_def)
qed

lemma ParseChar_scans: "scans (input L) (input (ParseChar L))"
proof (cases "good (input L) \<and> chars (input L) \<noteq> []")
  case False
  then show ?thesis
    by (auto simp: ParseChar_def scans_def istream_peek_def to_char_def EOF_char_class
        split: list.splits)
next
  case True
  then obtain c cs where c: "chars (input L) = c # cs" by (cases "chars (input L)") auto
  with True have p: "istream_peek (input L) = (Some c, input L)"
    by (simp add: istream_peek_def)
  show ?thesis
  proof (cases "ispunct c")
    case False
    with p show ?thesis by (simp add: ParseChar_def to_char_def scans_def)
  next
    case pc: True
    show ?thesis
    proof (cases "c = CHR ''#''")
      case True
      with SkipComment_res[of "input L" cs] \<open>good (input L) \<and> chars (input L) \<noteq> []\<close> c p pc
      show ?thesis by (auto simp: ParseChar_def to_char_def scans_def)
    next
      case False
      with p pc c \<open>good (input L) \<and> chars (input L) \<noteq> []\<close> show ?thesis
        by (auto simp: ParseChar_def to_char_def scans_def istream_get_def emplace_back_def)
    qed
  qed
qed

lemma ParseChar_progress:
  assumes "good (input L)" "chars (input L) = c # cs" "ispunct c"
  shows "length (chars (input (ParseChar L))) < length (chars (input L))"
proof -
  from assms have p: "istream_peek (input L) = (Some c, input L)"
    by (simp add: istream_peek_def)
  show ?thesis
  proof (cases "c = CHR ''#''")
    case True
    with SkipComment_res[of "input L" cs] assms p
    show ?thesis by (auto simp: ParseChar_def to_char_def)
  next
    case False
    with p assms show ?thesis
      by (auto simp: ParseChar_def to_char_def istream_get_def emplace_back_def)
  qed
qed

lemma ParseNumbers_loop_res:
  "\<not> failbit s \<Longrightarrow> ParseNumbers_loop s cs num = (num', s') \<Longrightarrow>
     set (chars s') \<subseteq> set cs \<and> length (chars s') \<le> length cs
     \<and> (case cs of [] \<Rightarrow> True
         | c # cs' \<Rightarrow> if isdigit c then length (chars s') < length cs else True)"
proof (induction s cs num arbitrary: num' s' rule: ParseNumbers_loop.induct)
  case (1 s num)
  then show ?case by auto
next
  case (2 s c cs num)
  show ?case
  proof (cases "isdigit c")
    case True
    with 2 have "set (chars s') \<subseteq> set cs \<and> length (chars s') \<le> length cs" by auto
    with True show ?thesis by auto
  next
    case False
    with 2 show ?thesis by (auto simp: istream_putback_def)
  qed
qed

lemma ParseNumbers_scans: "ParseNumbers L = Inr L' \<Longrightarrow> scans (input L) (input L')"
proof (cases "good (input L) \<and> chars (input L) \<noteq> []")
  case False
  assume "ParseNumbers L = Inr L'"
  with False show ?thesis
    by (auto simp: ParseNumbers_def scans_def istream_peek_def to_char_def EOF_char_class
        split: list.splits if_splits)
next
  case True
  assume h: "ParseNumbers L = Inr L'"
  from True obtain c cs where c: "chars (input L) = c # cs" by (cases "chars (input L)") auto
  with True have p: "istream_peek (input L) = (Some c, input L)"
    by (simp add: istream_peek_def)
  show ?thesis
  proof (cases "isdigit c")
    case False
    with p h show ?thesis by (auto simp: ParseNumbers_def to_char_def scans_def)
  next
    case d: True
    obtain num s2 where l: "ParseNumbers_loop (input L) (c # cs) [] = (num, s2)"
      by (cases "ParseNumbers_loop (input L) (c # cs) []") auto
    from True have nf: "\<not> failbit (input L)" by (simp add: good_def)
    from h p d l c True have i: "input L' = s2"
      by (auto simp: ParseNumbers_def to_char_def emplace_back_def split: sum.splits)
    from ParseNumbers_loop_res[OF nf l] d i c show ?thesis by (auto simp: scans_def)
  qed
qed

lemma ParseNumbers_progress:
  assumes "good (input L)" "chars (input L) = c # cs" "isdigit c" "ParseNumbers L = Inr L'"
  shows "length (chars (input L')) < length (chars (input L))"
proof -
  from assms have p: "istream_peek (input L) = (Some c, input L)"
    by (simp add: istream_peek_def)
  obtain num s2 where l: "ParseNumbers_loop (input L) (c # cs) [] = (num, s2)"
    by (cases "ParseNumbers_loop (input L) (c # cs) []") auto
  from assms have nf: "\<not> failbit (input L)" by (simp add: good_def)
  from assms p l have i: "input L' = s2"
    by (auto simp: ParseNumbers_def to_char_def emplace_back_def split: sum.splits)
  from ParseNumbers_loop_res[OF nf l] assms i show ?thesis by auto
qed

lemma SkipSpaces_loop_res:
  "chars s = cs \<Longrightarrow>
   set (chars (SkipSpaces_loop s cs)) \<subseteq> set cs \<and>
   (case cs of
      [] \<Rightarrow> chars (SkipSpaces_loop s cs) = []
    | c # cs' \<Rightarrow> if c = CHR '' '' then length (chars (SkipSpaces_loop s cs)) < length cs
                  else SkipSpaces_loop s cs = s)"
proof (cases cs)
  case Nil
  then show ?thesis by simp
next
  case (Cons c cs')
  have a: "set (chars (SkipSpaces_loop t xs)) \<subseteq> set xs
           \<and> length (chars (SkipSpaces_loop t xs)) \<le> length xs" for t xs
    by (induction t xs rule: SkipSpaces_loop.induct) auto
  assume "chars s = cs"
  with Cons a[of s cs'] show ?thesis by auto
qed

lemma SkipSpaces_scans: "scans (input L) (input (SkipSpaces L))"
  using SkipSpaces_loop_res[of "input L" "chars (input L)"]
  by (auto simp: SkipSpaces_def scans_def Let_def split: list.splits if_splits)

lemma SkipSpaces_progress:
  assumes "good (input L)" "chars (input L) = CHR '' '' # cs"
  shows "length (chars (input (SkipSpaces L))) < length (chars (input L))"
  using SkipSpaces_loop_res[of "input L" "chars (input L)"] assms
  by (auto simp: SkipSpaces_def Let_def)

lemma scans_subset: "scans a b \<Longrightarrow> set (chars b) \<subseteq> set (chars a)"
  by (simp add: scans_def)

lemma scans_le: "scans a b \<Longrightarrow> length (chars b) \<le> length (chars a)"
  by (auto simp: scans_def split: if_splits)

lemma scans_keep: "length (chars a) < n \<Longrightarrow> scans a b \<Longrightarrow> length (chars b) < n"
  by (auto simp: scans_def split: if_splits)

lemma scans_step:
  "length (chars a) < length (chars s) \<or> a = s \<Longrightarrow> scans a b \<Longrightarrow> good s \<Longrightarrow> chars s \<noteq> [] \<Longrightarrow>
   length (chars b) < length (chars s) \<or> b = s"
  by (auto simp: scans_def split: if_splits)

lemma ParseTokens_body_progress:
  assumes g: "good (input L)" and c: "chars (input L) = c # cs" and lx: "lexable c"
    and h: "ParseTokens_body L = Inr L'"
  shows "length (chars (input L')) < length (chars (input L))
         \<and> set (chars (input L')) \<subseteq> set (chars (input L))"
proof -
  let ?s = "input L"
  let ?n = "length (chars ?s)"
  define La where "La = ParseNewLine L"
  from h obtain Lb where b: "ParseStrings La = Inr Lb"
    by (auto simp: ParseTokens_body_def La_def split: sum.splits)
  define Lc where "Lc = ParseId Lb"
  define Ld where "Ld = ParseComparisonOperators Lc"
  define Le where "Le = ParseChar Ld"
  from h b obtain Lf where f: "ParseNumbers Le = Inr Lf"
    by (auto simp: ParseTokens_body_def La_def Lc_def Ld_def Le_def split: sum.splits)
  from h b f have e: "L' = SkipSpaces Lf"
    by (auto simp: ParseTokens_body_def La_def Lc_def Ld_def Le_def split: sum.splits)
  have sa: "scans ?s (input La)" unfolding La_def by (rule ParseNewLine_scans)
  have sb: "scans (input La) (input Lb)" using b by (rule ParseStrings_scans)
  have sc: "scans (input Lb) (input Lc)" unfolding Lc_def by (rule ParseId_scans)
  have sd: "scans (input Lc) (input Ld)" unfolding Ld_def by (rule ParseComparisonOperators_scans)
  have se: "scans (input Ld) (input Le)" unfolding Le_def by (rule ParseChar_scans)
  have sf: "scans (input Le) (input Lf)" using f by (rule ParseNumbers_scans)
  have sg: "scans (input Lf) (input L')" unfolding e by (rule SkipSpaces_scans)
  from c have ne: "chars ?s \<noteq> []" by simp
  have da: "length (chars (input La)) < ?n \<or> input La = ?s"
    using scans_step[OF _ sa g ne] by simp
  have db: "length (chars (input Lb)) < ?n \<or> input Lb = ?s"
    using scans_step[OF da sb g ne] .
  have dc: "length (chars (input Lc)) < ?n \<or> input Lc = ?s"
    using scans_step[OF db sc g ne] .
  have dd: "length (chars (input Ld)) < ?n \<or> input Ld = ?s"
    using scans_step[OF dc sd g ne] .
  have de: "length (chars (input Le)) < ?n \<or> input Le = ?s"
    using scans_step[OF dd se g ne] .
  have df: "length (chars (input Lf)) < ?n \<or> input Lf = ?s"
    using scans_step[OF de sf g ne] .
  have "set (chars (input L')) \<subseteq> set (chars (input Lf))" using sg by (rule scans_subset)
  also have "\<dots> \<subseteq> set (chars (input Le))" using sf by (rule scans_subset)
  also have "\<dots> \<subseteq> set (chars (input Ld))" using se by (rule scans_subset)
  also have "\<dots> \<subseteq> set (chars (input Lc))" using sd by (rule scans_subset)
  also have "\<dots> \<subseteq> set (chars (input Lb))" using sc by (rule scans_subset)
  also have "\<dots> \<subseteq> set (chars (input La))" using sb by (rule scans_subset)
  also have "\<dots> \<subseteq> set (chars ?s)" using sa by (rule scans_subset)
  finally have sub: "set (chars (input L')) \<subseteq> set (chars ?s)" .
  have lb: "length (chars (input Lb)) \<le> length (chars (input La))" using sb by (rule scans_le)
  have lc: "length (chars (input Lc)) \<le> length (chars (input Lb))" using sc by (rule scans_le)
  have ld: "length (chars (input Ld)) \<le> length (chars (input Lc))" using sd by (rule scans_le)
  have le: "length (chars (input Le)) \<le> length (chars (input Ld))" using se by (rule scans_le)
  have lf: "length (chars (input Lf)) \<le> length (chars (input Le))" using sf by (rule scans_le)
  have lg: "length (chars (input L')) \<le> length (chars (input Lf))" using sg by (rule scans_le)
  have "length (chars (input L')) < ?n"
  proof -
    consider (nl) "c = CHR 0x0A" | (q) "c = CHR 0x27 \<or> c = CHR 0x22"
      | (al) "isalpha c \<or> c = CHR ''_''" | (pu) "ispunct c" | (di) "isdigit c" | (sp) "c = CHR '' ''"
      using lx by (auto simp: lexable_def)
    then show ?thesis
    proof cases
      case nl
      with ParseNewLine_progress[OF g] c have "length (chars (input La)) < ?n"
        by (simp add: La_def)
      then show ?thesis using lb lc ld le lf lg by linarith
    next
      case q
      have "length (chars (input Lb)) < ?n"
      proof (rule disjE[OF da])
        assume "length (chars (input La)) < ?n"
        then show ?thesis using sb by (rule scans_keep)
      next
        assume eq: "input La = ?s"
        with ParseStrings_progress[of La c cs Lb] g c q b show ?thesis by simp
      qed
      then show ?thesis using lc ld le lf lg by linarith
    next
      case al
      have "length (chars (input Lc)) < ?n"
      proof (rule disjE[OF db])
        assume "length (chars (input Lb)) < ?n"
        then show ?thesis using sc by (rule scans_keep)
      next
        assume eq: "input Lb = ?s"
        with ParseId_progress[of Lb c cs] g c al show ?thesis by (simp add: Lc_def)
      qed
      then show ?thesis using ld le lf lg by linarith
    next
      case pu
      have "length (chars (input Le)) < ?n"
      proof (rule disjE[OF dd])
        assume "length (chars (input Ld)) < ?n"
        then show ?thesis using se by (rule scans_keep)
      next
        assume eq: "input Ld = ?s"
        with ParseChar_progress[of Ld c cs] g c pu show ?thesis by (simp add: Le_def)
      qed
      then show ?thesis using lf lg by linarith
    next
      case di
      have "length (chars (input Lf)) < ?n"
      proof (rule disjE[OF de])
        assume "length (chars (input Le)) < ?n"
        then show ?thesis using sf by (rule scans_keep)
      next
        assume eq: "input Le = ?s"
        with ParseNumbers_progress[of Le c cs Lf] g c di f show ?thesis by simp
      qed
      then show ?thesis using lg by linarith
    next
      case sp
      show ?thesis
      proof (rule disjE[OF df])
        assume "length (chars (input Lf)) < ?n"
        then show ?thesis using sg by (rule scans_keep)
      next
        assume eq: "input Lf = ?s"
        with SkipSpaces_progress[of Lf cs] g c sp show ?thesis by (simp add: e)
      qed
    qed
  qed
  with sub show ?thesis by simp
qed

lemma ParseTokens_loop_returns:
  "(\<forall>ch \<in> set (chars (input L)). lexable ch) \<Longrightarrow> length (chars (input L)) < fuel \<Longrightarrow>
   ParseTokens_loop fuel L \<noteq> None"
proof (induction fuel arbitrary: L)
  case 0
  then show ?case by simp
next
  case (Suc n)
  show ?case
  proof (cases "good (input L) \<and> chars (input L) \<noteq> []")
    case False
    then show ?thesis
      by (auto simp: istream_get_def split: list.splits)
  next
    case True
    then obtain c cs where c: "chars (input L) = c # cs" by (cases "chars (input L)") auto
    from True c have gp: "istream_get (input L) = (Some c, input L\<lparr>chars := cs\<rparr>)"
      by (simp add: istream_get_def)
    from True c have pb: "istream_putback c (input L\<lparr>chars := cs\<rparr>) = input L"
      by (simp add: istream_putback_def good_def)
    have LL: "L\<lparr>input := input L\<rparr> = L" by simp
    show ?thesis
    proof (cases "ParseTokens_body L")
      case (Inl e)
      with gp pb LL show ?thesis by simp
    next
      case (Inr L')
      from Suc.prems c have lx: "lexable c" by simp
      from ParseTokens_body_progress[OF _ c lx Inr] True
      have p: "length (chars (input L')) < length (chars (input L))"
        and sub: "set (chars (input L')) \<subseteq> set (chars (input L))" by auto
      from sub Suc.prems have "\<forall>ch \<in> set (chars (input L')). lexable ch" by auto
      moreover from p Suc.prems have "length (chars (input L')) < n" by simp
      ultimately have "ParseTokens_loop n L' \<noteq> None" by (rule Suc.IH)
      with gp pb LL Inr show ?thesis by simp
    qed
  qed
qed

lemma ParseTokens_returns:
  "(\<forall>ch \<in> set text_in. lexable ch) \<Longrightarrow> ParseTokens (Suc (length text_in)) text_in \<noteq> None"
  using ParseTokens_loop_returns
    [of "\<lparr>input = \<lparr>chars = text_in, eofbit = False, failbit = False\<rparr>, tokens = [], space_count = 0\<rparr>"
        "Suc (length text_in)"]
  by (auto simp: ParseTokens_def split: option.splits sum.splits)

text \<open>
  On an input of lexable characters the lexer returns or throws, with fuel one more
  than the length of the input.
\<close>

lemma ParseTokens_lexable_result:
  "(\<forall>ch \<in> set text_in. lexable ch) \<Longrightarrow>
     \<exists>r. ParseTokens (Suc (length text_in)) text_in = Some r"
  using ParseTokens_returns [of text_in] by auto

subsection \<open>String literals and the end of the token vector\<close>

text \<open>
  C3: a string literal that reaches the end of the input without its closing quote
  should be a lexical error. On the four characters \<open>"abc\<close> the lexer throws
  nothing and emits a \<open>String\<close> token for the unterminated literal.
\<close>

theorem ParseTokens_unterminated_string:
  "ParseTokens (Suc (Suc n)) [CHR 0x22, CHR ''a'', CHR ''b'', CHR ''c'']
     = Some (Inr [TString ''abc'', TNewline, TEof])"
  by (simp add: lexer_defs)




section \<open>Properties of the statements\<close>


text \<open>
  C2: a method call whose receiver evaluates to an empty holder should return
  \<open>None\<close>, and one whose receiver is not an instance should fail. With \<open>x\<close> bound
  to the empty holder, and with \<open>x\<close> bound to a number, \<open>x.f()\<close> calls \<open>Call\<close>
  through the null pointer that \<open>TryAs<ClassInstance>()\<close> gave.
\<close>

theorem MethodCall_receiver_not_instance_undefined:
  "Execute (Suc (Suc n)) (MethodCall (Some (VariableValue [''x''])) ''f'' []) (c(''x'' \<mapsto> None)) s
     = (Undefined, c(''x'' \<mapsto> None), s)
   \<and> Execute (Suc (Suc n)) (MethodCall (Some (VariableValue [''x''])) ''f'' [])
        (c(''x'' \<mapsto> Some (Number 1))) s
     = (Undefined, c(''x'' \<mapsto> Some (Number 1)), s)"
  by (simp add: VariableValue_Execute_def)

text \<open>
  What \<open>MethodCall\<close> does otherwise: without a receiver statement it returns
  \<open>None\<close> and evaluates nothing; with a receiver that is an instance it evaluates
  the arguments and returns what \<open>Call\<close> gives.
\<close>

lemma MethodCall_no_receiver_statement:
  "Execute (Suc n) (MethodCall None m args) c s = (Normal None, c, s)"
  by simp

lemma MethodCall_on_instance:
  "Execute n receiver c s = (Normal (Some (ClassInstance a)), cr, sr) \<Longrightarrow>
   exec_args (Execute n) args [] cr sr = (Inr args_values, ca, sa) \<Longrightarrow>
   Execute (Suc n) (MethodCall (Some receiver) m args) c s =
     (fst (Call (Execute n) a m args_values sa), ca, snd (Call (Execute n) a m args_values sa))"
  by (simp split: prod.splits)

text \<open>
  C4: in a dotted name, a name after a value that is not an instance should fail.
  With \<open>x\<close> bound to 5 and \<open>y\<close> bound to 7 in the closure, \<open>x.y\<close> is 7: the
  second name is looked up in the closure the first one was found in.
\<close>

theorem VariableValue_cursor_not_instance:
  "Execute (Suc n) (VariableValue [''x'', ''y''])
      [''x'' \<mapsto> Some (Number 5), ''y'' \<mapsto> Some (Number 7)] s
     = (Normal (Some (Number 7)), [''x'' \<mapsto> Some (Number 5), ''y'' \<mapsto> Some (Number 7)], s)"
  by (simp add: VariableValue_Execute_def)

text \<open>
  What \<open>VariableValue\<close> does otherwise: a single name is looked up in the closure;
  a name that the closure being searched does not hold, and an empty list, end in
  \<open>std::runtime_error\<close>; after an instance the next name is looked up in its fields.
\<close>

lemma VariableValue_single:
  "Execute (Suc n) (VariableValue [v0]) c s =
     (case c v0 of
        None \<Rightarrow> (runtime_error ''Invalid argument name'', c, s)
      | Some found \<Rightarrow>
          (case TryAs_ClassInstance found of
             None \<Rightarrow> (Normal found, c, s)
           | Some a \<Rightarrow> (if a \<in> dom (heap s) then Normal found else Undefined, c, s)))"
  by (auto simp: VariableValue_Execute_def split: option.splits)

lemma VariableValue_empty:
  "Execute (Suc n) (VariableValue []) c s = (runtime_error ''No arguments specified'', c, s)"
  by (simp add: VariableValue_Execute_def)

lemma VariableValue_through_instance:
  "c v0 = Some (Some (ClassInstance a)) \<Longrightarrow> heap s a = Some inst \<Longrightarrow> rest \<noteq> [] \<Longrightarrow>
   Execute (Suc n) (VariableValue (v0 # rest)) c s =
     (VariableValue_Execute rest (Fields inst) s, c, s)"
  by (cases rest) (simp_all add: VariableValue_Execute_def)

text \<open>
  C5, as amended: when the node of \<open>Add\<close>, \<open>Sub\<close>, \<open>Mult\<close>, \<open>Div\<close>, \<open>And\<close> or
  \<open>Or\<close> lacks an operand statement (a null \<open>lhs_\<close> or \<open>rhs_\<close>), \<open>Execute\<close> throws
  "null operands are not supported" and evaluates nothing.
\<close>

theorem null_operand_statement_fails:
  "lhs = None \<or> rhs = None \<Longrightarrow>
     Execute (Suc n) (Add lhs rhs) c s = (runtime_error ''null operands are not supported'', c, s)
   \<and> Execute (Suc n) (Sub lhs rhs) c s = (runtime_error ''null operands are not supported'', c, s)
   \<and> Execute (Suc n) (Mult lhs rhs) c s = (runtime_error ''null operands are not supported'', c, s)
   \<and> Execute (Suc n) (Div lhs rhs) c s = (runtime_error ''null operands are not supported'', c, s)
   \<and> Execute (Suc n) (And lhs rhs) c s = (runtime_error ''null operands are not supported'', c, s)
   \<and> Execute (Suc n) (Or lhs rhs) c s = (runtime_error ''null operands are not supported'', c, s)"
  by (cases lhs; cases rhs) simp_all

theorem null_operand_statement_fails_witness:
  "Execute (Suc 0) (Add None (Some (VariableValue [''x''])))
      [''x'' \<mapsto> Some (Number 1)] \<lparr>heap = Map.empty, out = [], moved = {}\<rparr>
     = (runtime_error ''null operands are not supported'',
        [''x'' \<mapsto> Some (Number 1)], \<lparr>heap = Map.empty, out = [], moved = {}\<rparr>)
   \<and> Execute (Suc 0) (Or None (Some (VariableValue [''x''])))
      [''x'' \<mapsto> Some (Number 1)] \<lparr>heap = Map.empty, out = [], moved = {}\<rparr>
     = (runtime_error ''null operands are not supported'',
        [''x'' \<mapsto> Some (Number 1)], \<lparr>heap = Map.empty, out = [], moved = {}\<rparr>)"
  using null_operand_statement_fails
          [of None "Some (VariableValue [''x''])" 0 "[''x'' \<mapsto> Some (Number 1)]"
              "\<lparr>heap = Map.empty, out = [], moved = {}\<rparr>"]
  by simp

text \<open>
  C5 as stated fails: operands that are present and evaluate to the empty holder
  are not rejected. \<open>And\<close> of two such operands is \<open>False\<close>, and \<open>Add\<close> of them
  throws another error, "Wrong types for add operation".
\<close>

theorem None_holder_operands_not_rejected:
  "fst (Execute (Suc (Suc 0)) (And (Some (VariableValue [''x''])) (Some (VariableValue [''x''])))
          [''x'' \<mapsto> None] \<lparr>heap = Map.empty, out = [], moved = {}\<rparr>)
     = Normal (Some (Bool False))
   \<and> fst (Execute (Suc (Suc 0)) (Add (Some (VariableValue [''x''])) (Some (VariableValue [''x''])))
          [''x'' \<mapsto> None] \<lparr>heap = Map.empty, out = [], moved = {}\<rparr>)
     = runtime_error ''Wrong types for add operation''"
  by (simp add: VariableValue_Execute_def exec_operands_def)



text \<open>
  C7: with both operand statements present, \<open>And\<close> and \<open>Or\<close> evaluate the left
  operand and then the right one, from the closure and state the left one left,
  whatever the left value is; the result is a \<open>Bool\<close>, the conjunction or the
  disjunction of the truthiness of the two values. The right operand is not skipped:
  when it does not return normally, neither does the operation.
\<close>

theorem And_Or_evaluate_both_operands:
  "(Execute n a c s = (Normal va, ca, sa) \<and> Execute n b ca sa = (Normal vb, cb, sb) \<longrightarrow>
      Execute (Suc n) (And (Some a) (Some b)) c s
        = (Normal (Some (Bool (IsTrue va \<and> IsTrue vb))), cb, sb)
    \<and> Execute (Suc n) (Or (Some a) (Some b)) c s
        = (Normal (Some (Bool (IsTrue va \<or> IsTrue vb))), cb, sb))
   \<and> (Execute n a' c' s' = (Normal va', ca', sa') \<and> Execute n b' ca' sa' = (r, cb', sb')
       \<and> (\<forall>v. r \<noteq> Normal v) \<longrightarrow>
      Execute (Suc n) (And (Some a') (Some b')) c' s' = (r, cb', sb')
    \<and> Execute (Suc n) (Or (Some a') (Some b')) c' s' = (r, cb', sb'))"
  by (cases r) (auto simp: exec_operands_def)

theorem And_Or_evaluate_both_operands_witness:
  "Execute (Suc (Suc (Suc 0)))
      (And (Some (VariableValue [''x''])) (Some (Assignment ''y'' (VariableValue [''x'']))))
      [''x'' \<mapsto> Some (Bool False)] empty_state
     = (Normal (Some (Bool False)),
        [''x'' \<mapsto> Some (Bool False), ''y'' \<mapsto> Some (Bool False)], empty_state)
   \<and> Execute (Suc (Suc (Suc 0)))
      (Or (Some (VariableValue [''x''])) (Some (Assignment ''y'' (VariableValue [''x'']))))
      [''x'' \<mapsto> Some (Bool False)] empty_state
     = (Normal (Some (Bool False)),
        [''x'' \<mapsto> Some (Bool False), ''y'' \<mapsto> Some (Bool False)], empty_state)
   \<and> Execute (Suc (Suc (Suc 0)))
      (Or (Some (VariableValue [''t''])) (Some (VariableValue [''q''])))
      example_closure empty_state
     = (runtime_error ''Invalid argument name'', example_closure, empty_state)
   \<and> Execute (Suc (Suc (Suc 0)))
      (And (Some (VariableValue [''t''])) (Some (VariableValue [''q''])))
      example_closure empty_state
     = (runtime_error ''Invalid argument name'', example_closure, empty_state)"
proof -
  have a: "Execute (Suc (Suc 0)) (VariableValue [''x'']) [''x'' \<mapsto> Some (Bool False)] empty_state
             = (Normal (Some (Bool False)), [''x'' \<mapsto> Some (Bool False)], empty_state)
          \<and> Execute (Suc (Suc 0)) (Assignment ''y'' (VariableValue [''x'']))
               [''x'' \<mapsto> Some (Bool False)] empty_state
             = (Normal (Some (Bool False)),
                [''x'' \<mapsto> Some (Bool False), ''y'' \<mapsto> Some (Bool False)], empty_state)"
    by (simp add: VariableValue_Execute_def)
  have b: "Execute (Suc (Suc 0)) (VariableValue [''t'']) example_closure empty_state
             = (Normal (Some (Bool True)), example_closure, empty_state)
          \<and> Execute (Suc (Suc 0)) (VariableValue [''q'']) example_closure empty_state
             = (runtime_error ''Invalid argument name'', example_closure, empty_state)
          \<and> (\<forall>v. runtime_error ''Invalid argument name'' \<noteq> Normal v)"
    by (simp add: VariableValue_Execute_def example_closure_def)
  from a b
    And_Or_evaluate_both_operands
      [where n = "Suc (Suc 0)" and a = "VariableValue [''x'']"
         and b = "Assignment ''y'' (VariableValue [''x''])"
         and c = "[''x'' \<mapsto> Some (Bool False)]" and s = empty_state
         and va = "Some (Bool False)" and ca = "[''x'' \<mapsto> Some (Bool False)]"
         and sa = empty_state and vb = "Some (Bool False)"
         and cb = "[''x'' \<mapsto> Some (Bool False), ''y'' \<mapsto> Some (Bool False)]"
         and sb = empty_state
         and a' = "VariableValue [''t'']" and b' = "VariableValue [''q'']"
         and c' = example_closure and s' = empty_state
         and va' = "Some (Bool True)" and ca' = example_closure and sa' = empty_state
         and r = "runtime_error ''Invalid argument name''"
         and cb' = example_closure and sb' = empty_state]
  show ?thesis by simp
qed



end
